theory Spec2Isabelle
  imports Main "HOL-Library.Word"
begin

section \<open>VaultVoteEnhanced: the per-choice confidential election contract\<close>

text \<open>
  The contract state of \<^verbatim>\<open>VaultVoteEnhanced.sol\<close> (\<^verbatim>\<open>src/unnamed/part_008\<close>) as records,
  one field per storage variable. A Solidity mapping is a total function whose default is the zero value. A
  \<^verbatim>\<open>uint256\<close> is a natural number; the two checked increments of the source
  (\<^verbatim>\<open>electionCount++\<close>, \<^verbatim>\<open>revealedChoiceCount++\<close>) carry their overflow panic. A
  \<^verbatim>\<open>bytes32\<close> and an \<^verbatim>\<open>euint32\<close> (a user type over \<^verbatim>\<open>bytes32\<close>) are 256-bit words, an
  address is a 160-bit word, \<^verbatim>\<open>bytes\<close> is a list of 8-bit words. Events are log output
  only and are left out.
\<close>

type_synonym bytes32 = "256 word"
type_synonym euint32 = "256 word"
type_synonym address = "160 word"
type_synonym bytes = "8 word list"

datatype ElectionState = Created | Open | Closed | Revealed

record Election =
  title :: string
  choiceLabels :: "string list"
  choiceCount :: nat
  state :: ElectionState
  encryptedVotesPerChoice :: "nat \<Rightarrow> euint32"
  revealedVotesPerChoice :: "nat \<Rightarrow> 32 word"
  choiceRevealed :: "nat \<Rightarrow> bool"
  userVotes :: "address \<Rightarrow> euint32"
  hasVoted :: "address \<Rightarrow> bool"
  fullyRevealed :: bool
  revealedChoiceCount :: nat
  expectedHandles :: "nat \<Rightarrow> bytes32"

record Contract =
  owner :: address
  elections :: "nat \<Rightarrow> Election"
  electionCount :: nat

text \<open>
  A transaction either returns or reverts. A revert is a failed \<^verbatim>\<open>require\<close> with its
  message, an arithmetic panic, a revert inside the FHE library, or a failed
  \<^verbatim>\<open>abi.decode\<close>.
\<close>

datatype error = Require string | Panic | FHE_revert | Decode_revert

definition uint256_max :: nat where
  "uint256_max = 2 ^ 256 - 1"

text \<open>
  The FHE library (\<^verbatim>\<open>@fhevm/solidity/lib/FHE.sol\<close>) is not part of the repository; the
  contract is modelled over any behaviour of the calls it makes. A call that returns a
  value gives \<open>None\<close> when it reverts; a call that returns nothing gives \<open>False\<close> when
  it reverts.
\<close>

record FHE =
  FHE_fromExternal :: "bytes32 \<Rightarrow> bytes \<Rightarrow> euint32 option"
  FHE_add :: "euint32 \<Rightarrow> euint32 \<Rightarrow> euint32 option"
  FHE_allowThis :: "euint32 \<Rightarrow> bool"
  FHE_allow :: "euint32 \<Rightarrow> address \<Rightarrow> bool"
  FHE_makePubliclyDecryptable :: "euint32 \<Rightarrow> euint32 option"
  FHE_toBytes32 :: "euint32 \<Rightarrow> bytes32"
  FHE_checkSignatures :: "bytes32 list \<Rightarrow> bytes \<Rightarrow> bytes \<Rightarrow> bool"

text \<open>The constructor: \<^verbatim>\<open>owner = msg.sender\<close>, every other slot zero.\<close>

definition zero_Election :: Election where
  "zero_Election =
     \<lparr>title = [], choiceLabels = [], choiceCount = 0, state = Created,
      encryptedVotesPerChoice = (\<lambda>_. 0), revealedVotesPerChoice = (\<lambda>_. 0),
      choiceRevealed = (\<lambda>_. False), userVotes = (\<lambda>_. 0), hasVoted = (\<lambda>_. False),
      fullyRevealed = False, revealedChoiceCount = 0, expectedHandles = (\<lambda>_. 0)\<rparr>"

definition constructor :: "address \<Rightarrow> Contract" where
  "constructor sender = \<lparr>owner = sender, elections = (\<lambda>_. zero_Election), electionCount = 0\<rparr>"

text \<open>
  The initialisation loop of \<^verbatim>\<open>createElection\<close>:
  \<^verbatim>\<open>for (uint256 i = 0; i < choiceLabels.length; i++)\<close>, from index \<open>i\<close> on. The two
  array reads are in range, the lengths having been compared before the loop.
\<close>

function createElection_loop ::
  "FHE \<Rightarrow> bytes32 list \<Rightarrow> bytes list \<Rightarrow> nat \<Rightarrow> nat \<Rightarrow> Election \<Rightarrow> Election option" where
  "createElection_loop fhe zeroInputs zeroProofs n i e =
     (if i < n then
        (case FHE_fromExternal fhe (zeroInputs ! i) (zeroProofs ! i) of
           None \<Rightarrow> None
         | Some h \<Rightarrow>
             if FHE_allowThis fhe h then
               createElection_loop fhe zeroInputs zeroProofs n (Suc i)
                 (e\<lparr>encryptedVotesPerChoice := (encryptedVotesPerChoice e)(i := h),
                    choiceRevealed := (choiceRevealed e)(i := False)\<rparr>)
             else None)
      else Some e)"
  by pat_completeness auto
termination
  by (relation "measure (\<lambda>(fhe, zeroInputs, zeroProofs, n, i, e). n - i)") auto

declare createElection_loop.simps [simp del]

definition createElection ::
  "FHE \<Rightarrow> address \<Rightarrow> string \<Rightarrow> string list \<Rightarrow> bytes32 list \<Rightarrow> bytes list \<Rightarrow> Contract
     \<Rightarrow> error + (nat \<times> Contract)" where
  "createElection fhe sender title' choiceLabels' zeroInputs zeroProofs c =
     (if sender \<noteq> owner c then Inl (Require ''only owner'')
      else if \<not> length choiceLabels' > 1 then Inl (Require ''need at least 2 choices'')
      else if length zeroInputs \<noteq> length choiceLabels' then Inl (Require ''mismatch inputs'')
      else if length zeroProofs \<noteq> length choiceLabels' then Inl (Require ''mismatch proofs'')
      else if electionCount c = uint256_max then Inl Panic
      else
        let eid = electionCount c;
            e = (elections c eid)
                  \<lparr>title := title', choiceLabels := choiceLabels',
                   choiceCount := length choiceLabels', state := Created,
                   fullyRevealed := False, revealedChoiceCount := 0\<rparr>
        in (case createElection_loop fhe zeroInputs zeroProofs (length choiceLabels') 0 e of
              None \<Rightarrow> Inl FHE_revert
            | Some e' \<Rightarrow>
                Inr (eid, c\<lparr>electionCount := eid + 1, elections := (elections c)(eid := e')\<rparr>)))"

definition openElection :: "address \<Rightarrow> nat \<Rightarrow> Contract \<Rightarrow> error + Contract" where
  "openElection sender eid c =
     (if sender \<noteq> owner c then Inl (Require ''only owner'')
      else let e = elections c eid in
        if state e \<noteq> Created then Inl (Require ''invalid state'')
        else Inr (c\<lparr>elections := (elections c)(eid := e\<lparr>state := Open\<rparr>)\<rparr>))"

definition closeElection :: "address \<Rightarrow> nat \<Rightarrow> Contract \<Rightarrow> error + Contract" where
  "closeElection sender eid c =
     (if sender \<noteq> owner c then Inl (Require ''only owner'')
      else let e = elections c eid in
        if state e \<noteq> Open then Inl (Require ''not open'')
        else Inr (c\<lparr>elections := (elections c)(eid := e\<lparr>state := Closed\<rparr>)\<rparr>))"

text \<open>
  \<^verbatim>\<open>castVote\<close>: the three \<^verbatim>\<open>require\<close>s in the source's order, then the FHE calls in the
  source's order (\<^verbatim>\<open>fromExternal\<close>, \<^verbatim>\<open>allow\<close> to the voter, \<^verbatim>\<open>add\<close>, \<^verbatim>\<open>allowThis\<close>,
  \<^verbatim>\<open>allow\<close> to the owner), then \<^verbatim>\<open>hasVoted\<close>.
\<close>

definition castVote ::
  "FHE \<Rightarrow> address \<Rightarrow> nat \<Rightarrow> nat \<Rightarrow> bytes32 \<Rightarrow> bytes \<Rightarrow> Contract \<Rightarrow> error + Contract" where
  "castVote fhe sender eid choiceIndex voteInput voteProof c =
     (let e = elections c eid in
      if state e \<noteq> Open then Inl (Require ''election not open'')
      else if hasVoted e sender then Inl (Require ''already voted'')
      else if \<not> choiceIndex < choiceCount e then Inl (Require ''invalid choice'')
      else
        (case FHE_fromExternal fhe voteInput voteProof of
           None \<Rightarrow> Inl FHE_revert
         | Some vote \<Rightarrow>
             if \<not> FHE_allow fhe vote sender then Inl FHE_revert
             else
               (case FHE_add fhe (encryptedVotesPerChoice e choiceIndex) vote of
                  None \<Rightarrow> Inl FHE_revert
                | Some s \<Rightarrow>
                    if \<not> FHE_allowThis fhe s then Inl FHE_revert
                    else if \<not> FHE_allow fhe s (owner c) then Inl FHE_revert
                    else
                      Inr (c\<lparr>elections := (elections c)(eid :=
                             e\<lparr>userVotes := (userVotes e)(sender := vote),
                               encryptedVotesPerChoice :=
                                 (encryptedVotesPerChoice e)(choiceIndex := s),
                               hasVoted := (hasVoted e)(sender := True)\<rparr>)\<rparr>))))"

definition requestChoiceReveal ::
  "FHE \<Rightarrow> address \<Rightarrow> nat \<Rightarrow> nat \<Rightarrow> Contract \<Rightarrow> error + Contract" where
  "requestChoiceReveal fhe sender eid choiceIndex c =
     (if sender \<noteq> owner c then Inl (Require ''only owner'')
      else let e = elections c eid in
        if state e \<noteq> Closed then Inl (Require ''must be closed'')
        else if \<not> choiceIndex < choiceCount e then Inl (Require ''invalid choice'')
        else if choiceRevealed e choiceIndex then Inl (Require ''already revealed'')
        else
          (case FHE_makePubliclyDecryptable fhe (encryptedVotesPerChoice e choiceIndex) of
             None \<Rightarrow> Inl FHE_revert
           | Some h \<Rightarrow>
               Inr (c\<lparr>elections := (elections c)(eid :=
                      e\<lparr>encryptedVotesPerChoice := (encryptedVotesPerChoice e)(choiceIndex := h),
                        expectedHandles :=
                          (expectedHandles e)(choiceIndex := FHE_toBytes32 fhe h)\<rparr>)\<rparr>)))"

text \<open>
  \<^verbatim>\<open>abi.decode(cleartexts, (uint32))\<close>: the first 32 bytes, read big-endian, must be a
  value below \<open>2 ^ 32\<close>; shorter data or a larger value reverts.
\<close>

definition be_nat :: "bytes \<Rightarrow> nat" where
  "be_nat bs = foldl (\<lambda>a b. 256 * a + unat b) 0 bs"

definition abi_decode_uint32 :: "bytes \<Rightarrow> 32 word option" where
  "abi_decode_uint32 cleartexts =
     (if length cleartexts < 32 then None
      else let v = be_nat (take 32 cleartexts) in
        if v < 2 ^ 32 then Some (word_of_nat v) else None)"

definition resolveChoiceCallback ::
  "FHE \<Rightarrow> nat \<Rightarrow> nat \<Rightarrow> bytes \<Rightarrow> bytes \<Rightarrow> Contract \<Rightarrow> error + Contract" where
  "resolveChoiceCallback fhe eid choiceIndex cleartexts decryptionProof c =
     (if \<not> eid < electionCount c then Inl (Require ''invalid election'')
      else let e = elections c eid in
        if state e \<noteq> Closed then Inl (Require ''must be closed'')
        else if \<not> choiceIndex < choiceCount e then Inl (Require ''invalid choice'')
        else if choiceRevealed e choiceIndex then Inl (Require ''already revealed'')
        else if \<not> FHE_checkSignatures fhe [expectedHandles e choiceIndex] cleartexts decryptionProof
          then Inl FHE_revert
        else
          (case abi_decode_uint32 cleartexts of
             None \<Rightarrow> Inl Decode_revert
           | Some voteCount \<Rightarrow>
               if revealedChoiceCount e = uint256_max then Inl Panic
               else
                 let e1 = e\<lparr>revealedVotesPerChoice :=
                              (revealedVotesPerChoice e)(choiceIndex := voteCount),
                            choiceRevealed := (choiceRevealed e)(choiceIndex := True),
                            revealedChoiceCount := revealedChoiceCount e + 1\<rparr>;
                     e2 = (if revealedChoiceCount e1 = choiceCount e1
                           then e1\<lparr>state := Revealed, fullyRevealed := True\<rparr> else e1)
                 in Inr (c\<lparr>elections := (elections c)(eid := e2)\<rparr>)))"

text \<open>
  \<^verbatim>\<open>getWinner\<close>: the scan \<^verbatim>\<open>for (uint256 i = 1; i < e.choiceCount; i++)\<close> from index
  \<open>i\<close> on, with the running winner; \<^verbatim>\<open>>\<close> on \<^verbatim>\<open>uint32\<close> is the unsigned order of
  the words.
\<close>

function getWinner_loop :: "Election \<Rightarrow> nat \<Rightarrow> nat \<times> 32 word \<Rightarrow> nat \<times> 32 word" where
  "getWinner_loop e i (winningIndex, winningVotes) =
     (if i < choiceCount e then
        (if revealedVotesPerChoice e i > winningVotes
         then getWinner_loop e (Suc i) (i, revealedVotesPerChoice e i)
         else getWinner_loop e (Suc i) (winningIndex, winningVotes))
      else (winningIndex, winningVotes))"
  by pat_completeness auto
termination
  by (relation "measure (\<lambda>(e, i, w). choiceCount e - i)") auto

declare getWinner_loop.simps [simp del]

definition getWinner :: "nat \<Rightarrow> Contract \<Rightarrow> error + (nat \<times> 32 word)" where
  "getWinner eid c =
     (let e = elections c eid in
      if \<not> fullyRevealed e then Inl (Require ''not fully revealed'')
      else Inr (getWinner_loop e 1 (0, revealedVotesPerChoice e 0)))"


subsection \<open>Transactions\<close>

text \<open>
  The state-changing entry points as one type of calls. A transaction carries the
  behaviour of the FHE library during that transaction, the sender and the call. A
  transaction that reverts leaves the contract state as it was.
\<close>

datatype op =
    CreateElection string "string list" "bytes32 list" "bytes list"
  | OpenElection nat
  | CloseElection nat
  | CastVote nat nat bytes32 bytes
  | RequestChoiceReveal nat nat
  | ResolveChoiceCallback nat nat bytes bytes

fun call :: "FHE \<Rightarrow> address \<Rightarrow> op \<Rightarrow> Contract \<Rightarrow> error + Contract" where
  "call fhe sender (CreateElection t ls zi zp) c =
     (case createElection fhe sender t ls zi zp c of Inl err \<Rightarrow> Inl err | Inr (eid, c') \<Rightarrow> Inr c')"
| "call fhe sender (OpenElection eid) c = openElection sender eid c"
| "call fhe sender (CloseElection eid) c = closeElection sender eid c"
| "call fhe sender (CastVote eid ch vi vp) c = castVote fhe sender eid ch vi vp c"
| "call fhe sender (RequestChoiceReveal eid ch) c = requestChoiceReveal fhe sender eid ch c"
| "call fhe sender (ResolveChoiceCallback eid ch ct pf) c = resolveChoiceCallback fhe eid ch ct pf c"

definition commit :: "error + Contract \<Rightarrow> Contract \<Rightarrow> Contract" where
  "commit r c = (case r of Inl err \<Rightarrow> c | Inr c' \<Rightarrow> c')"

fun run :: "(FHE \<times> address \<times> op) list \<Rightarrow> Contract \<Rightarrow> Contract" where
  "run [] c = c"
| "run ((fhe, sender, x) # txs) c = run txs (commit (call fhe sender x c) c)"

text \<open>The numeric value of the Solidity enum \<^verbatim>\<open>ElectionState\<close>.\<close>

fun ElectionState_index :: "ElectionState \<Rightarrow> nat" where
  "ElectionState_index Created = 0"
| "ElectionState_index Open = 1"
| "ElectionState_index Closed = 2"
| "ElectionState_index Revealed = 3"

text \<open>
  The FHE calls of \<^verbatim>\<open>castVote\<close>, in the source's order: whether all of them return.
\<close>

definition castVote_FHE_ok ::
  "FHE \<Rightarrow> address \<Rightarrow> nat \<Rightarrow> nat \<Rightarrow> bytes32 \<Rightarrow> bytes \<Rightarrow> Contract \<Rightarrow> bool" where
  "castVote_FHE_ok fhe sender eid choiceIndex voteInput voteProof c =
     (case FHE_fromExternal fhe voteInput voteProof of
        None \<Rightarrow> False
      | Some vote \<Rightarrow>
          FHE_allow fhe vote sender \<and>
          (case FHE_add fhe (encryptedVotesPerChoice (elections c eid) choiceIndex) vote of
             None \<Rightarrow> False
           | Some s \<Rightarrow> FHE_allowThis fhe s \<and> FHE_allow fhe s (owner c)))"

text \<open>
  The FHE calls of the loop of \<^verbatim>\<open>createElection\<close> over \<open>n\<close> choices: whether
  \<^verbatim>\<open>fromExternal\<close> and \<^verbatim>\<open>allowThis\<close> return for every index.
\<close>

definition createElection_FHE_ok :: "FHE \<Rightarrow> bytes32 list \<Rightarrow> bytes list \<Rightarrow> nat \<Rightarrow> bool" where
  "createElection_FHE_ok fhe zeroInputs zeroProofs n =
     list_all
       (\<lambda>i. case FHE_fromExternal fhe (zeroInputs ! i) (zeroProofs ! i) of
              None \<Rightarrow> False
            | Some h \<Rightarrow> FHE_allowThis fhe h)
       [0..<n]"

text \<open>
  Two behaviours of the FHE library for concrete runs: one under which every call
  returns (handles are added as numbers, publishing keeps the handle), and one under
  which every call that can revert does.
\<close>

definition fhe_accepting :: FHE where
  "fhe_accepting =
     \<lparr>FHE_fromExternal = (\<lambda>h p. Some h), FHE_add = (\<lambda>a b. Some (a + b)),
      FHE_allowThis = (\<lambda>h. True), FHE_allow = (\<lambda>h a. True),
      FHE_makePubliclyDecryptable = (\<lambda>h. Some h), FHE_toBytes32 = (\<lambda>h. h),
      FHE_checkSignatures = (\<lambda>hs ct pf. True)\<rparr>"

definition fhe_rejecting :: FHE where
  "fhe_rejecting =
     \<lparr>FHE_fromExternal = (\<lambda>h p. None), FHE_add = (\<lambda>a b. None),
      FHE_allowThis = (\<lambda>h. False), FHE_allow = (\<lambda>h a. False),
      FHE_makePubliclyDecryptable = (\<lambda>h. None), FHE_toBytes32 = (\<lambda>h. h),
      FHE_checkSignatures = (\<lambda>hs ct pf. False)\<rparr>"

section \<open>VaultVote: the single-tally contract\<close>

text \<open>
  The storage of \<^verbatim>\<open>src/contracts/VaultVote.sol\<close> and its two reveal entry points. The field
  names carry the prefix \<open>vv_\<close>, the names of the source being taken by the records
  above.
\<close>

record TallyElection =
  vv_title :: string
  vv_choices :: nat
  vv_state :: ElectionState
  vv_encryptedTally :: euint32
  vv_revealedResult :: bytes
  vv_revealRequested :: bool
  vv_expectedTallyHandle :: bytes32
  vv_hasVoted :: "address \<Rightarrow> bool"

record VaultVote =
  vv_owner :: address
  vv_elections :: "nat \<Rightarrow> TallyElection"
  vv_electionCount :: nat

definition requestTallyReveal :: "FHE \<Rightarrow> address \<Rightarrow> nat \<Rightarrow> VaultVote \<Rightarrow> error + VaultVote" where
  "requestTallyReveal fhe sender eid c =
     (if sender \<noteq> vv_owner c then Inl (Require ''only owner'')
      else let e = vv_elections c eid in
        if vv_state e \<noteq> Closed then Inl (Require ''must be closed'')
        else if vv_revealRequested e then Inl (Require ''reveal already requested'')
        else
          (case FHE_makePubliclyDecryptable fhe (vv_encryptedTally e) of
             None \<Rightarrow> Inl FHE_revert
           | Some h \<Rightarrow>
               Inr (c\<lparr>vv_elections := (vv_elections c)(eid :=
                      e\<lparr>vv_encryptedTally := h,
                        vv_expectedTallyHandle := FHE_toBytes32 fhe h,
                        vv_revealRequested := True\<rparr>)\<rparr>)))"

text \<open>\<^verbatim>\<open>abi.encodePacked\<close> of a \<^verbatim>\<open>uint32\<close>: its four bytes, big-endian.\<close>

definition abi_encodePacked_uint32 :: "32 word \<Rightarrow> bytes" where
  "abi_encodePacked_uint32 v =
     [ucast (drop_bit 24 v), ucast (drop_bit 16 v), ucast (drop_bit 8 v), ucast v]"

definition resolveTallyCallback ::
  "FHE \<Rightarrow> nat \<Rightarrow> bytes \<Rightarrow> bytes \<Rightarrow> VaultVote \<Rightarrow> error + VaultVote" where
  "resolveTallyCallback fhe eid cleartexts decryptionProof c =
     (if \<not> eid < vv_electionCount c then Inl (Require ''invalid election'')
      else let e = vv_elections c eid in
        if \<not> vv_revealRequested e then Inl (Require ''reveal not requested'')
        else if vv_state e \<noteq> Closed then Inl (Require ''must be closed'')
        else if \<not> vv_state e \<noteq> Revealed then Inl (Require ''already revealed'')
        else if \<not> FHE_checkSignatures fhe [vv_expectedTallyHandle e] cleartexts decryptionProof
          then Inl FHE_revert
        else
          (case abi_decode_uint32 cleartexts of
             None \<Rightarrow> Inl Decode_revert
           | Some revealedTally \<Rightarrow>
               Inr (c\<lparr>vv_elections := (vv_elections c)(eid :=
                      e\<lparr>vv_state := Revealed,
                        vv_revealedResult := abi_encodePacked_uint32 revealedTally\<rparr>)\<rparr>)))"

definition vv_commit :: "error + VaultVote \<Rightarrow> VaultVote \<Rightarrow> VaultVote" where
  "vv_commit r c = (case r of Inl err \<Rightarrow> c | Inr c' \<Rightarrow> c')"


section \<open>The metadata server: nonces and the toggle-hidden route\<close>

text \<open>
  The routes of the server (\<^verbatim>\<open>src/unnamed/part_007\<close>) and its storage
  (\<^verbatim>\<open>src/unnamed/part_006\<close>). The two JavaScript maps of the server
  (\<^verbatim>\<open>nonceStore\<close> and \<^verbatim>\<open>FileStorage.electionMetadata\<close>) are its state. An optional field
  of a record is an option; the field names carry a prefix, the route's variables
  keeping the names of the source. Numbers are integers: the election ids and the
  millisecond clock are taken to stay below \<open>2 ^ 53\<close>, where a JavaScript number is
  exact.
\<close>

record NonceData =
  nd_nonce :: string
  nd_electionId :: int
  nd_expiresAt :: int

record ElectionMetadata =
  md_electionId :: int
  md_description :: "string option"
  md_votingStartTime :: "string option"
  md_votingEndTime :: "string option"
  md_resultRevealTime :: "string option"
  md_imageUrl :: "string option"
  md_hidden :: "bool option"

record Server =
  nonceStore :: "string \<rightharpoonup> NonceData"
  electionMetadata :: "int \<rightharpoonup> ElectionMetadata"

definition saveElectionMetadata :: "ElectionMetadata \<Rightarrow> Server \<Rightarrow> Server" where
  "saveElectionMetadata metadata srv =
     srv\<lparr>electionMetadata := (electionMetadata srv)(md_electionId metadata \<mapsto> metadata)\<rparr>"

definition getElectionMetadata :: "int \<Rightarrow> Server \<Rightarrow> ElectionMetadata option" where
  "getElectionMetadata electionId srv = electionMetadata srv electionId"

text \<open>
  \<^verbatim>\<open>parseInt(s, 10)\<close>: leading white space, an optional sign, then the longest run of
  decimal digits; \<open>None\<close> is \<^verbatim>\<open>NaN\<close>. The white space is that of ASCII.
\<close>

definition is_space :: "char \<Rightarrow> bool" where
  "is_space ch = (ch \<in> set [CHR 0x09, CHR 0x0A, CHR 0x0B, CHR 0x0C, CHR 0x0D, CHR '' ''])"

definition is_digit :: "char \<Rightarrow> bool" where
  "is_digit ch = (ch \<in> set ''0123456789'')"

definition digits_value :: "string \<Rightarrow> nat" where
  "digits_value ds = foldl (\<lambda>a d. 10 * a + (of_char d - 48)) 0 ds"

definition parseInt10 :: "string \<Rightarrow> int option" where
  "parseInt10 s =
     (let t = dropWhile is_space s;
          neg = (case t of [] \<Rightarrow> False | x # r \<Rightarrow> x = CHR ''-'');
          u = (case t of [] \<Rightarrow> [] | x # r \<Rightarrow> if x = CHR ''-'' \<or> x = CHR ''+'' then r else t);
          ds = takeWhile is_digit u
      in if ds = [] then None
         else Some (if neg then - int (digits_value ds) else int (digits_value ds)))"

text \<open>
  The pattern \<^verbatim>\<open>/^Toggle hidden for election (\d+) with nonce ([a-f0-9]+)$/\<close>, matched
  against the whole message: the two groups, or \<open>None\<close> when there is no match. A
  space is no digit, so the first group is the longest run of digits after the prefix.
\<close>

fun strip_prefix :: "string \<Rightarrow> string \<Rightarrow> string option" where
  "strip_prefix [] s = Some s"
| "strip_prefix (p # ps) [] = None"
| "strip_prefix (p # ps) (x # xs) = (if p = x then strip_prefix ps xs else None)"

definition is_hex :: "char \<Rightarrow> bool" where
  "is_hex ch = (ch \<in> set ''abcdef0123456789'')"

definition match_messagePattern :: "string \<Rightarrow> (string \<times> string) option" where
  "match_messagePattern message =
     (case strip_prefix ''Toggle hidden for election '' message of
        None \<Rightarrow> None
      | Some r \<Rightarrow>
          let g1 = takeWhile is_digit r in
          if g1 = [] then None
          else
            (case strip_prefix '' with nonce '' (dropWhile is_digit r) of
               None \<Rightarrow> None
             | Some g2 \<Rightarrow> if g2 \<noteq> [] \<and> list_all is_hex g2 then Some (g1, g2) else None))"

text \<open>A response: the HTTP status and the JSON body.\<close>

datatype body = Error string | Nonce string int | Success bool

type_synonym response = "nat \<times> body"

text \<open>
  \<^verbatim>\<open>GET /api/election-metadata/:id/toggle-hidden/nonce\<close>. The value of
  \<^verbatim>\<open>randomBytes(32).toString('hex')\<close> and of \<^verbatim>\<open>Date.now()\<close> are arguments.
\<close>

definition toggle_hidden_nonce :: "string \<Rightarrow> int \<Rightarrow> string \<Rightarrow> Server \<Rightarrow> response \<times> Server" where
  "toggle_hidden_nonce randomHex now idParam srv =
     (case parseInt10 idParam of
        None \<Rightarrow> ((400, Error ''Invalid election ID''), srv)
      | Some electionId \<Rightarrow>
          let nonce = randomHex;
              expiresAt = now + 5 * 60 * 1000
          in ((200, Nonce nonce expiresAt),
              srv\<lparr>nonceStore := (nonceStore srv)(nonce \<mapsto>
                \<lparr>nd_nonce = nonce, nd_electionId = electionId, nd_expiresAt = expiresAt\<rparr>)\<rparr>))"

text \<open>
  \<^verbatim>\<open>POST /api/election-metadata/:id/toggle-hidden\<close>. The three fields of the request
  body are strings or absent; \<^verbatim>\<open>!x\<close> holds of an absent field and of the empty string.
  \<^verbatim>\<open>verifyMessage\<close> of the ethers library is an argument: the recovered address, or
  \<open>None\<close> when it throws. \<^verbatim>\<open>Date.now()\<close> is an argument.
\<close>

definition falsy :: "string option \<Rightarrow> bool" where
  "falsy v = (case v of None \<Rightarrow> True | Some s \<Rightarrow> s = [])"

text \<open>\<^verbatim>\<open>!(existingMetadata?.hidden)\<close>: an absent record and an absent field count as false.\<close>

definition newHiddenState :: "ElectionMetadata option \<Rightarrow> bool" where
  "newHiddenState existingMetadata =
     (\<not> (case existingMetadata of
            None \<Rightarrow> False
          | Some md \<Rightarrow> (case md_hidden md of None \<Rightarrow> False | Some h \<Rightarrow> h)))"

definition toggle_hidden ::
  "(string \<Rightarrow> string \<Rightarrow> string option) \<Rightarrow> int \<Rightarrow> string
     \<Rightarrow> string option \<Rightarrow> string option \<Rightarrow> string option \<Rightarrow> Server \<Rightarrow> response \<times> Server" where
  "toggle_hidden verifyMessage now idParam message' signature' nonce' srv =
     (case parseInt10 idParam of
        None \<Rightarrow> ((400, Error ''Invalid election ID''), srv)
      | Some electionId \<Rightarrow>
          if falsy message' \<or> falsy signature' \<or> falsy nonce' then
            ((401, Error ''Message, signature, and nonce required for authentication''), srv)
          else
            let message = (case message' of Some s \<Rightarrow> s | None \<Rightarrow> []);
                signature = (case signature' of Some s \<Rightarrow> s | None \<Rightarrow> []);
                nonce = (case nonce' of Some s \<Rightarrow> s | None \<Rightarrow> [])
            in
            (case nonceStore srv nonce of
               None \<Rightarrow> ((401, Error ''Invalid or expired nonce''), srv)
             | Some nonceData \<Rightarrow>
                 if nd_electionId nonceData \<noteq> electionId then
                   ((400, Error ''Nonce does not match election ID''), srv)
                 else if nd_expiresAt nonceData < now then
                   ((401, Error ''Nonce expired''),
                    srv\<lparr>nonceStore := (nonceStore srv)(nonce := None)\<rparr>)
                 else
                   let srv1 = srv\<lparr>nonceStore := (nonceStore srv)(nonce := None)\<rparr> in
                   (case verifyMessage message signature of
                      None \<Rightarrow> ((401, Error ''Invalid signature''), srv1)
                    | Some signerAddress \<Rightarrow>
                        (case match_messagePattern message of
                           None \<Rightarrow> ((400, Error ''Invalid message format''), srv1)
                         | Some (g1, g2) \<Rightarrow>
                             let messageElectionId = parseInt10 g1;
                                 messageNonce = g2
                             in
                             if messageElectionId \<noteq> Some electionId \<or> messageNonce \<noteq> nonce then
                               ((400, Error ''Message data mismatch''), srv1)
                             else
                               let existingMetadata = getElectionMetadata electionId srv1;
                                   hidden' = newHiddenState existingMetadata;
                                   updatedMetadata =
                                     \<lparr>md_electionId = electionId, md_description = None,
                                      md_votingStartTime = None, md_votingEndTime = None,
                                      md_resultRevealTime = None, md_imageUrl = None,
                                      md_hidden = Some hidden'\<rparr>
                               in ((200, Success hidden'),
                                   saveElectionMetadata updatedMetadata srv1)))))"

text \<open>
  Two behaviours of \<^verbatim>\<open>verifyMessage\<close> for concrete runs: under the first every
  signature recovers the address it names, under the second every call throws.
\<close>

definition recover_any :: "string \<Rightarrow> string \<Rightarrow> string option" where
  "recover_any message signature = Some signature"

definition recover_throws :: "string \<Rightarrow> string \<Rightarrow> string option" where
  "recover_throws message signature = None"

section \<open>The form schema of the client\<close>

text \<open>
  \<^verbatim>\<open>createElectionSchema\<close> (\<^verbatim>\<open>src/vite.config.ts\<close>), on the two fields it constrains: the
  title has at least 3 characters; each choice label has at least 1 character and is
  then trimmed; there are at least 2 and at most 10 labels. \<open>None\<close> is a failed parse,
  otherwise the parsed title and labels. The white space trimmed is that of ASCII.
\<close>

definition js_trim :: "string \<Rightarrow> string" where
  "js_trim s = rev (dropWhile is_space (rev (dropWhile is_space s)))"

definition createElectionSchema :: "string \<Rightarrow> string list \<Rightarrow> (string \<times> string list) option" where
  "createElectionSchema title' choiceLabels' =
     (if length title' \<ge> 3 \<and> list_all (\<lambda>l. length l \<ge> 1) choiceLabels'
         \<and> length choiceLabels' \<ge> 2 \<and> length choiceLabels' \<le> 10
      then Some (title', map js_trim choiceLabels') else None)"

section \<open>Invariants and concrete runs\<close>

text \<open>
  The facts that a resolved choice keeps: the election exists, the choice is valid and
  marked revealed, and the election is closed or revealed.
\<close>

definition resolved_inv :: "nat \<Rightarrow> nat \<Rightarrow> Contract \<Rightarrow> bool" where
  "resolved_inv eid ch c =
     (eid < electionCount c \<and> ch < choiceCount (elections c eid) \<and>
      choiceRevealed (elections c eid) ch \<and>
      (state (elections c eid) = Closed \<or> state (elections c eid) = Revealed))"

text \<open>A fully revealed election has a choice.\<close>

definition revealed_inv :: "Contract \<Rightarrow> bool" where
  "revealed_inv c = (\<forall>eid. fullyRevealed (elections c eid) \<longrightarrow> 0 < choiceCount (elections c eid))"

text \<open>
  A run of the contract: the owner creates the election Yes/No and opens it, two voters
  vote, the owner closes it, and both choices are revealed with the count 1
  (\<open>cleartext_one\<close> is the ABI encoding of \<open>1\<close>).
\<close>

definition admin :: address where
  "admin = 1"

definition voterA :: address where
  "voterA = 2"

definition voterB :: address where
  "voterB = 3"

definition cleartext_one :: bytes where
  "cleartext_one = [0,0,0,0,0,0,0,0, 0,0,0,0,0,0,0,0, 0,0,0,0,0,0,0,0, 0,0,0,0,0,0,0,1]"

definition txs_setup :: "(FHE \<times> address \<times> op) list" where
  "txs_setup =
     [(fhe_accepting, admin, CreateElection ''Poll'' [''Yes'', ''No''] [0, 0] [[], []]),
      (fhe_accepting, admin, OpenElection 0)]"

definition txs_voting :: "(FHE \<times> address \<times> op) list" where
  "txs_voting =
     [(fhe_accepting, voterA, CastVote 0 0 1 []),
      (fhe_accepting, voterB, CastVote 0 1 1 []),
      (fhe_accepting, admin, CloseElection 0)]"

definition txs_reveal :: "(FHE \<times> address \<times> op) list" where
  "txs_reveal =
     [(fhe_accepting, admin, RequestChoiceReveal 0 0),
      (fhe_accepting, voterA, ResolveChoiceCallback 0 0 cleartext_one []),
      (fhe_accepting, admin, RequestChoiceReveal 0 1),
      (fhe_accepting, voterA, ResolveChoiceCallback 0 1 cleartext_one [])]"

definition scenario_open :: Contract where
  "scenario_open = run txs_setup (constructor admin)"

definition scenario_closed :: Contract where
  "scenario_closed = run (txs_setup @ txs_voting) (constructor admin)"

definition scenario_requested :: Contract where
  "scenario_requested =
     run (txs_setup @ txs_voting @ [(fhe_accepting, admin, RequestChoiceReveal 0 0)])
       (constructor admin)"

definition scenario_revealed :: Contract where
  "scenario_revealed = run (txs_setup @ txs_voting @ txs_reveal) (constructor admin)"

text \<open>Eleven labels, the last of them empty, with their inputs and proofs.\<close>

definition eleven_labels :: "string list" where
  "eleven_labels =
     [''A'', ''B'', ''C'', ''D'', ''E'', ''F'', ''G'', ''H'', ''I'', ''J'', []]"

definition eleven_inputs :: "bytes32 list" where
  "eleven_inputs = [0, 0, 0, 0, 0, 0, 0, 0, 0, 0, 0]"

definition eleven_proofs :: "bytes list" where
  "eleven_proofs = [[], [], [], [], [], [], [], [], [], [], []]"

text \<open>A closed election of the single-tally contract, with no reveal requested.\<close>

definition vv_closed :: VaultVote where
  "vv_closed =
     \<lparr>vv_owner = admin,
      vv_elections = (\<lambda>i.
        \<lparr>vv_title = (if i = 0 then ''Poll'' else []), vv_choices = (if i = 0 then 2 else 0),
         vv_state = (if i = 0 then Closed else Created), vv_encryptedTally = 0,
         vv_revealedResult = [], vv_revealRequested = False, vv_expectedTallyHandle = 0,
         vv_hasVoted = (\<lambda>a. False)\<rparr>),
      vv_electionCount = 1\<rparr>"

text \<open>
  A run of the server: election 5 has stored metadata with a description, and a nonce
  is issued for it at time 1000.
\<close>

definition srv_described :: Server where
  "srv_described =
     \<lparr>nonceStore = Map.empty,
      electionMetadata = [5 \<mapsto>
        \<lparr>md_electionId = 5, md_description = Some ''Budget vote'',
         md_votingStartTime = None, md_votingEndTime = None, md_resultRevealTime = None,
         md_imageUrl = Some ''https://example.org/a.png'', md_hidden = None\<rparr>]\<rparr>"

definition srv_issued :: Server where
  "srv_issued = snd (toggle_hidden_nonce ''ab12'' 1000 ''5'' srv_described)"

definition message5 :: string where
  "message5 = ''Toggle hidden for election 5 with nonce ab12''"

definition scenario_first_resolved :: Contract where
  "scenario_first_resolved =
     commit (resolveChoiceCallback fhe_accepting 0 0 cleartext_one [] scenario_requested)
       scenario_requested"

definition vv_requested :: VaultVote where
  "vv_requested = vv_commit (requestTallyReveal fhe_accepting admin 0 vv_closed) vv_closed"

definition srv_consumed :: Server where
  "srv_consumed =
     snd (toggle_hidden recover_throws 2000 ''5'' (Some message5) (Some ''alice'') (Some ''ab12'')
            srv_issued)"

definition srv_after_mismatch :: Server where
  "srv_after_mismatch =
     snd (toggle_hidden recover_any 2000 ''6'' (Some message5) (Some ''alice'') (Some ''ab12'')
            srv_issued)"

definition srv_toggled :: Server where
  "srv_toggled =
     snd (toggle_hidden recover_any 2000 ''5'' (Some message5) (Some ''alice'') (Some ''ab12'')
            srv_issued)"

text \<open>
  A run on a slot that no election has been assigned yet: the owner opens and closes
  slot 0 of a fresh contract, and then creates the first election, which gets id 0.
\<close>

definition txs_early :: "(FHE \<times> address \<times> op) list" where
  "txs_early =
     [(fhe_accepting, admin, OpenElection 0),
      (fhe_accepting, admin, CloseElection 0)]"

definition tx_create :: "FHE \<times> address \<times> op" where
  "tx_create = (fhe_accepting, admin, CreateElection ''Poll'' [''Yes'', ''No''] [0, 0] [[], []])"

text \<open>
  The two transactions that reveal choice 1 after choice 0 has been resolved.
\<close>

definition txs_reveal_second :: "(FHE \<times> address \<times> op) list" where
  "txs_reveal_second =
     [(fhe_accepting, admin, RequestChoiceReveal 0 1),
      (fhe_accepting, voterA, ResolveChoiceCallback 0 1 cleartext_one [])]"

text \<open>
  A state of the server in which election 5 is hidden and a nonce is stored for it.
\<close>

definition srv_hidden :: Server where
  "srv_hidden =
     \<lparr>nonceStore = [''cd34'' \<mapsto>
        \<lparr>nd_nonce = ''cd34'', nd_electionId = 5, nd_expiresAt = 301000\<rparr>],
      electionMetadata = [5 \<mapsto>
        \<lparr>md_electionId = 5, md_description = None,
         md_votingStartTime = None, md_votingEndTime = None, md_resultRevealTime = None,
         md_imageUrl = None, md_hidden = Some True\<rparr>]\<rparr>"

definition message5_second :: string where
  "message5_second = ''Toggle hidden for election 5 with nonce cd34''"

section \<open>Frame lemmas of the contract\<close>

lemmas call_defs =
  openElection_def closeElection_def castVote_def requestChoiceReveal_def
  resolveChoiceCallback_def Let_def

lemmas eval_defs =
  call_defs commit_def createElection_def createElection_loop.simps uint256_max_def
  abi_decode_uint32_def be_nat_def constructor_def zero_Election_def

lemmas server_eval_defs =
  toggle_hidden_def toggle_hidden_nonce_def parseInt10_def digits_value_def is_space_def
  is_digit_def is_hex_def match_messagePattern_def falsy_def newHiddenState_def
  saveElectionMetadata_def getElectionMetadata_def Let_def

lemma createElection_loop_frame:
  "createElection_loop fhe zi zp n i e = Some e' \<Longrightarrow>
     state e' = state e \<and> choiceCount e' = choiceCount e \<and> hasVoted e' = hasVoted e \<and>
     fullyRevealed e' = fullyRevealed e \<and> revealedChoiceCount e' = revealedChoiceCount e \<and>
     title e' = title e \<and> choiceLabels e' = choiceLabels e"
proof (induction fhe zi zp n i e rule: createElection_loop.induct)
  case (1 fhe zi zp n i e)
  show ?case
  proof (cases "i < n")
    case True
    with "1.prems" obtain h where h: "FHE_fromExternal fhe (zi ! i) (zp ! i) = Some h"
      "FHE_allowThis fhe h"
      "createElection_loop fhe zi zp n (Suc i)
         (e\<lparr>encryptedVotesPerChoice := (encryptedVotesPerChoice e)(i := h),
            choiceRevealed := (choiceRevealed e)(i := False)\<rparr>) = Some e'"
      by (subst (asm) createElection_loop.simps) (auto split: option.splits if_splits)
    from "1.IH"[OF True h(1) h(2) h(3)] show ?thesis by simp
  next
    case False
    with "1.prems" show ?thesis
      by (subst (asm) createElection_loop.simps) simp
  qed
qed

lemma createElection_Inr:
  "createElection fhe sender t ls zi zp c = Inr (eid, c') \<Longrightarrow>
     sender = owner c \<and> eid = electionCount c \<and> electionCount c' = Suc (electionCount c) \<and>
     owner c' = owner c \<and> (\<forall>j. j \<noteq> eid \<longrightarrow> elections c' j = elections c j) \<and>
     state (elections c' eid) = Created \<and> fullyRevealed (elections c' eid) = False \<and>
     choiceCount (elections c' eid) = length ls \<and>
     hasVoted (elections c' eid) = hasVoted (elections c eid) \<and>
     1 < length ls \<and> length zi = length ls \<and> length zp = length ls"
  by (auto simp: createElection_def Let_def split: if_splits option.splits
      dest!: createElection_loop_frame)

lemma createElection_hasVoted:
  assumes "createElection fhe sender t ls zi zp c = Inr (i, c')"
  shows "hasVoted (elections c' eid) = hasVoted (elections c eid)"
  using createElection_Inr[OF assms] by (cases "eid = i") auto

lemma commit_cases:
  "commit (call fhe sender x c) c = c \<or> call fhe sender x c = Inr (commit (call fhe sender x c) c)"
  by (cases "call fhe sender x c") (simp_all add: commit_def)

lemma call_electionCount_mono:
  "call fhe sender x c = Inr c' \<Longrightarrow> electionCount c \<le> electionCount c'"
  by (cases x)
    (auto simp: call_defs split: if_splits option.splits sum.splits dest!: createElection_Inr)

lemma call_state_step:
  "call fhe sender x c = Inr c' \<Longrightarrow> eid < electionCount c \<Longrightarrow>
     ElectionState_index (state (elections c' eid)) = ElectionState_index (state (elections c eid)) \<or>
     ElectionState_index (state (elections c' eid)) = Suc (ElectionState_index (state (elections c eid)))"
  by (cases x)
    (auto simp: call_defs split: if_splits option.splits sum.splits dest!: createElection_Inr)

lemma run_electionCount_mono: "electionCount c \<le> electionCount (run txs c)"
proof (induction txs arbitrary: c)
  case Nil
  show ?case by simp
next
  case (Cons tx txs)
  obtain fhe sender x where tx: "tx = (fhe, sender, x)" by (cases tx)
  have "electionCount c \<le> electionCount (commit (call fhe sender x c) c)"
    using commit_cases[of fhe sender x c] call_electionCount_mono by fastforce
  also have "\<dots> \<le> electionCount (run txs (commit (call fhe sender x c) c))"
    by (rule Cons.IH)
  finally show ?case by (simp add: tx)
qed

lemma commit_state_step:
  assumes "eid < electionCount c"
  shows "ElectionState_index (state (elections (commit (call fhe sender x c) c) eid))
           = ElectionState_index (state (elections c eid)) \<or>
         ElectionState_index (state (elections (commit (call fhe sender x c) c) eid))
           = Suc (ElectionState_index (state (elections c eid)))"
  using commit_cases[of fhe sender x c] call_state_step[OF _ assms] by fastforce

lemma run_state_mono:
  "eid < electionCount c \<Longrightarrow>
     ElectionState_index (state (elections c eid))
       \<le> ElectionState_index (state (elections (run txs c) eid))"
proof (induction txs arbitrary: c)
  case Nil
  show ?case by simp
next
  case (Cons tx txs)
  obtain fhe sender x where tx: "tx = (fhe, sender, x)" by (cases tx)
  let ?c1 = "commit (call fhe sender x c) c"
  have lt: "eid < electionCount ?c1"
    using Cons.prems run_electionCount_mono[of c "[(fhe, sender, x)]"] by simp
  have "ElectionState_index (state (elections c eid))
          \<le> ElectionState_index (state (elections ?c1 eid))"
    using commit_state_step[OF Cons.prems, of fhe sender x] by auto
  also have "\<dots> \<le> ElectionState_index (state (elections (run txs ?c1) eid))"
    by (rule Cons.IH[OF lt])
  finally show ?case by (simp add: tx)
qed

section \<open>The lifecycle of an election\<close>

text \<open>
  C6, as amended. For every created election (\<open>eid < electionCount\<close>) and every
  sequence of transactions, reverted or not, the state of the election never moves to an
  earlier value of \<^verbatim>\<open>Created, Open, Closed, Revealed\<close>, and each single transaction after
  the sequence leaves the state where it is or moves it to the next value: no transition
  goes backward and none skips a state.
\<close>

theorem state_only_moves_forward:
  assumes "eid < electionCount c"
  shows "ElectionState_index (state (elections c eid))
           \<le> ElectionState_index (state (elections (run txs c) eid)) \<and>
         (ElectionState_index
            (state (elections (commit (call fhe sender x (run txs c)) (run txs c)) eid))
            = ElectionState_index (state (elections (run txs c) eid)) \<or>
          ElectionState_index
            (state (elections (commit (call fhe sender x (run txs c)) (run txs c)) eid))
            = Suc (ElectionState_index (state (elections (run txs c) eid))))"
proof -
  have "eid < electionCount (run txs c)"
    using assms run_electionCount_mono[of c txs] by simp
  then show ?thesis
    using run_state_mono[OF assms] commit_state_step by blast
qed

theorem state_only_moves_forward_witness:
  "0 < electionCount scenario_open \<and>
   state (elections scenario_open 0) = Open \<and>
   state (elections (run txs_voting scenario_open) 0) = Closed \<and>
   state (elections (commit (call fhe_accepting admin (OpenElection 0)
            (run txs_voting scenario_open)) (run txs_voting scenario_open)) 0) = Closed \<and>
   ElectionState_index (state (elections scenario_open 0))
     \<le> ElectionState_index (state (elections (run txs_voting scenario_open) 0))"
proof -
  have h: "0 < electionCount scenario_open"
    by (simp add: eval_defs scenario_open_def txs_setup_def fhe_accepting_def admin_def)
  have v: "state (elections scenario_open 0) = Open"
    "state (elections (run txs_voting scenario_open) 0) = Closed"
    "state (elections (commit (call fhe_accepting admin (OpenElection 0)
            (run txs_voting scenario_open)) (run txs_voting scenario_open)) 0) = Closed"
    by (simp_all add: eval_defs scenario_open_def txs_setup_def fhe_accepting_def admin_def
        txs_voting_def voterA_def voterB_def)
  show ?thesis
    using h v state_only_moves_forward[OF h, of txs_voting fhe_accepting admin "OpenElection 0"]
    by simp
qed

text \<open>
  The claim as stated, for every id, fails: \<^verbatim>\<open>openElection\<close> and \<^verbatim>\<open>closeElection\<close> do not
  check that the id has been assigned. On a fresh contract the owner opens and closes
  slot 0, whose state is then \<^verbatim>\<open>Closed\<close> while no election exists; the \<^verbatim>\<open>createElection\<close>
  that follows assigns id 0 and sets the state of that slot back to \<^verbatim>\<open>Created\<close>.
\<close>

theorem createElection_resets_closed_slot:
  "electionCount (run txs_early (constructor admin)) = 0 \<and>
   state (elections (run txs_early (constructor admin)) 0) = Closed \<and>
   electionCount (run [tx_create] (run txs_early (constructor admin))) = 1 \<and>
   state (elections (run [tx_create] (run txs_early (constructor admin))) 0) = Created \<and>
   ElectionState_index (state (elections (run [tx_create] (run txs_early (constructor admin))) 0))
     < ElectionState_index (state (elections (run txs_early (constructor admin)) 0))"
  by (simp add: eval_defs txs_early_def tx_create_def fhe_accepting_def admin_def)

section \<open>Votes\<close>

lemma call_hasVoted:
  "call fhe sender x c = Inr c' \<Longrightarrow> hasVoted (elections c eid) v \<Longrightarrow> hasVoted (elections c' eid) v"
  by (cases x)
    (auto simp: call_defs createElection_hasVoted split: if_splits option.splits sum.splits)

lemma run_hasVoted:
  "hasVoted (elections c eid) v \<Longrightarrow> hasVoted (elections (run txs c) eid) v"
proof (induction txs arbitrary: c)
  case Nil
  then show ?case by simp
next
  case (Cons tx txs)
  obtain fhe sender x where tx: "tx = (fhe, sender, x)" by (cases tx)
  have "hasVoted (elections (commit (call fhe sender x c) c) eid) v"
    using commit_cases[of fhe sender x c] call_hasVoted Cons.prems by fastforce
  then show ?case using Cons.IH by (simp add: tx)
qed

lemma castVote_Inr_iff:
  "(\<exists>c'. castVote fhe sender eid ch vi vp c = Inr c') \<longleftrightarrow>
     (state (elections c eid) = Open \<and> ch < choiceCount (elections c eid) \<and>
      \<not> hasVoted (elections c eid) sender \<and> castVote_FHE_ok fhe sender eid ch vi vp c)"
  by (auto simp: castVote_def castVote_FHE_ok_def Let_def split: option.splits)

lemma castVote_sets_hasVoted:
  "castVote fhe sender eid ch vi vp c = Inr c' \<Longrightarrow> hasVoted (elections c' eid) sender"
  by (auto simp: castVote_def Let_def split: option.splits if_splits)

text \<open>
  C5, as amended. \<^verbatim>\<open>castVote\<close> is accepted if and only if the election is \<^verbatim>\<open>Open\<close>, the
  choice index is below the choice count, the sender has not voted, and the FHE library
  accepts the encrypted vote with its proof and the calls that follow
  (\<open>castVote_FHE_ok\<close>). After an accepted vote \<^verbatim>\<open>hasVoted\<close> of the sender is true, and it
  stays true after every sequence of transactions.
\<close>

theorem castVote_accepted:
  "((\<exists>c'. castVote fhe sender eid ch vi vp c = Inr c') \<longleftrightarrow>
      (state (elections c eid) = Open \<and> ch < choiceCount (elections c eid) \<and>
       \<not> hasVoted (elections c eid) sender \<and> castVote_FHE_ok fhe sender eid ch vi vp c)) \<and>
   (\<forall>c' txs. castVote fhe sender eid ch vi vp c = Inr c' \<longrightarrow>
      hasVoted (elections c' eid) sender \<and> hasVoted (elections (run txs c') eid) sender)"
  using castVote_Inr_iff castVote_sets_hasVoted run_hasVoted by blast

theorem castVote_accepted_witness:
  "state (elections scenario_open 0) = Open \<and> 0 < choiceCount (elections scenario_open 0) \<and>
   \<not> hasVoted (elections scenario_open 0) voterA \<and>
   castVote_FHE_ok fhe_accepting voterA 0 0 1 [] scenario_open \<and>
   (\<exists>c'. castVote fhe_accepting voterA 0 0 1 [] scenario_open = Inr c' \<and>
         hasVoted (elections c' 0) voterA \<and> hasVoted (elections (run txs_reveal c') 0) voterA)"
proof -
  have pre: "state (elections scenario_open 0) = Open" "0 < choiceCount (elections scenario_open 0)"
    "\<not> hasVoted (elections scenario_open 0) voterA"
    "castVote_FHE_ok fhe_accepting voterA 0 0 1 [] scenario_open"
    by (simp_all add: eval_defs scenario_open_def txs_setup_def fhe_accepting_def admin_def voterA_def
        castVote_FHE_ok_def)
  show ?thesis
    using pre castVote_accepted[of fhe_accepting voterA 0 0 1 "[]" scenario_open] by blast
qed

text \<open>
  The claim as stated fails: an open election, a valid choice and a sender who has not
  voted, and the vote is rejected because the FHE library rejects its proof.
\<close>

theorem castVote_rejected_by_FHE:
  "state (elections scenario_open 0) = Open \<and> 0 < choiceCount (elections scenario_open 0) \<and>
   \<not> hasVoted (elections scenario_open 0) voterA \<and>
   castVote fhe_rejecting voterA 0 0 1 [] scenario_open = Inl FHE_revert"
  by (simp add: eval_defs scenario_open_def txs_setup_def fhe_accepting_def admin_def voterA_def
      fhe_rejecting_def)

section \<open>The reveal protocol\<close>

lemma resolve_establishes:
  "resolveChoiceCallback fhe eid ch ct pf c = Inr c' \<Longrightarrow> resolved_inv eid ch c'"
  by (auto simp: resolveChoiceCallback_def resolved_inv_def Let_def
      split: if_splits option.splits)

lemma call_resolved_inv:
  "call fhe sender x c = Inr c' \<Longrightarrow> resolved_inv eid ch c \<Longrightarrow> resolved_inv eid ch c'"
  by (cases x)
    (auto simp: call_defs resolved_inv_def
      split: if_splits option.splits sum.splits dest!: createElection_Inr)

lemma run_resolved_inv: "resolved_inv eid ch c \<Longrightarrow> resolved_inv eid ch (run txs c)"
proof (induction txs arbitrary: c)
  case Nil
  then show ?case by simp
next
  case (Cons tx txs)
  obtain fhe sender x where tx: "tx = (fhe, sender, x)" by (cases tx)
  have "resolved_inv eid ch (commit (call fhe sender x c) c)"
    using commit_cases[of fhe sender x c] call_resolved_inv Cons.prems by fastforce
  then show ?case using Cons.IH by (simp add: tx)
qed

lemma resolved_inv_rejects:
  "resolved_inv eid ch c \<Longrightarrow>
     resolveChoiceCallback fhe eid ch ct pf c =
       Inl (Require (if state (elections c eid) = Closed then ''already revealed''
                     else ''must be closed''))"
  by (auto simp: resolveChoiceCallback_def resolved_inv_def Let_def)

text \<open>
  C4, as amended. \<^verbatim>\<open>resolveChoiceCallback\<close> succeeds at most once for an election and a
  choice: after one successful call and any sequence of transactions, every further call
  for the same election and choice, with any cleartext, proof and behaviour of the FHE
  library, reverts and so leaves the state unchanged. The revert is
  \<^verbatim>\<open>already revealed\<close> while the election is still \<^verbatim>\<open>Closed\<close>, and \<^verbatim>\<open>must be closed\<close> once
  the election is \<^verbatim>\<open>Revealed\<close>; the election is in one of the two states.
\<close>

theorem resolve_at_most_once:
  assumes "resolveChoiceCallback fhe eid ch ct pf c = Inr c1"
  shows "resolveChoiceCallback fhe' eid ch ct' pf' (run txs c1) =
           Inl (Require (if state (elections (run txs c1) eid) = Closed
                         then ''already revealed'' else ''must be closed'')) \<and>
         commit (resolveChoiceCallback fhe' eid ch ct' pf' (run txs c1)) (run txs c1) = run txs c1 \<and>
         (state (elections (run txs c1) eid) = Closed \<or> state (elections (run txs c1) eid) = Revealed)"
proof -
  have inv: "resolved_inv eid ch (run txs c1)"
    using assms resolve_establishes run_resolved_inv by blast
  have rej: "resolveChoiceCallback fhe' eid ch ct' pf' (run txs c1) =
           Inl (Require (if state (elections (run txs c1) eid) = Closed
                         then ''already revealed'' else ''must be closed''))"
    by (rule resolved_inv_rejects[OF inv])
  show ?thesis
    using inv by (simp add: rej commit_def resolved_inv_def)
qed

theorem resolve_at_most_once_witness:
  "resolveChoiceCallback fhe_accepting 0 0 cleartext_one [] scenario_requested
     = Inr scenario_first_resolved \<and>
   resolveChoiceCallback fhe_accepting 0 0 cleartext_one [] scenario_first_resolved
     = Inl (Require ''already revealed'') \<and>
   state (elections scenario_first_resolved 0) = Closed"
proof -
  have h: "resolveChoiceCallback fhe_accepting 0 0 cleartext_one [] scenario_requested
             = Inr scenario_first_resolved"
    by (simp add: eval_defs scenario_first_resolved_def cleartext_one_def
        scenario_requested_def txs_setup_def txs_voting_def voterA_def voterB_def fhe_accepting_def admin_def)
  have s: "state (elections scenario_first_resolved 0) = Closed"
    by (simp add: eval_defs scenario_first_resolved_def cleartext_one_def
        scenario_requested_def txs_setup_def txs_voting_def voterA_def voterB_def fhe_accepting_def admin_def)
  show ?thesis
    using h s resolve_at_most_once[OF h, of fhe_accepting cleartext_one "[]" "[]"] by simp
qed

text \<open>
  The claim as stated fails: in the run that reveals both choices, the second choice has
  been resolved, and a further call for it reverts with \<^verbatim>\<open>must be closed\<close>, not with
  \<^verbatim>\<open>already revealed\<close>.
\<close>

theorem second_resolve_must_be_closed:
  "choiceRevealed (elections scenario_revealed 0) 1 \<and>
   state (elections scenario_revealed 0) = Revealed \<and>
   resolveChoiceCallback fhe_accepting 0 1 cleartext_one [] scenario_revealed
     = Inl (Require ''must be closed'')"
  by (simp add: eval_defs scenario_revealed_def txs_setup_def txs_voting_def voterA_def voterB_def
      txs_reveal_def cleartext_one_def fhe_accepting_def admin_def)

text \<open>
  C2, as amended. In \<^verbatim>\<open>VaultVoteEnhanced\<close> a reveal request leaves no mark that a second
  request checks: after a successful \<^verbatim>\<open>requestChoiceReveal\<close>, a second call by the owner
  for the same election and choice passes every \<^verbatim>\<open>require\<close>; it publishes the
  accumulator again and stores the handle of the result as the expected handle, and it
  reverts only when the FHE library does. Once the choice has been resolved, after any
  sequence of transactions a further request for it reverts: with \<^verbatim>\<open>only owner\<close> for a
  sender who is not the owner, otherwise with \<^verbatim>\<open>already revealed\<close> while the election is
  still \<^verbatim>\<open>Closed\<close> and with \<^verbatim>\<open>must be closed\<close> once the election is \<^verbatim>\<open>Revealed\<close>. In the
  single-tally \<^verbatim>\<open>VaultVote\<close>, after a successful \<^verbatim>\<open>requestTallyReveal\<close> every second call
  reverts (\<^verbatim>\<open>reveal already requested\<close> for the owner, \<^verbatim>\<open>only owner\<close> for anyone else) and
  the expected handle is unchanged.
\<close>

theorem second_reveal_request:
  "(requestChoiceReveal fhe sender eid ch c = Inr c1 \<longrightarrow>
      requestChoiceReveal fhe' sender eid ch c1 =
        (case FHE_makePubliclyDecryptable fhe' (encryptedVotesPerChoice (elections c1 eid) ch) of
           None \<Rightarrow> Inl FHE_revert
         | Some h \<Rightarrow>
             Inr (c1\<lparr>elections := (elections c1)(eid :=
                    (elections c1 eid)
                      \<lparr>encryptedVotesPerChoice :=
                         (encryptedVotesPerChoice (elections c1 eid))(ch := h),
                       expectedHandles :=
                         (expectedHandles (elections c1 eid))(ch := FHE_toBytes32 fhe' h)\<rparr>)\<rparr>))) \<and>
   (resolveChoiceCallback fhe eid ch ct pf cr = Inr c2 \<longrightarrow>
      requestChoiceReveal fhe' sender' eid ch (run txs c2) =
        Inl (Require (if sender' \<noteq> owner (run txs c2) then ''only owner''
                      else if state (elections (run txs c2) eid) = Closed
                           then ''already revealed'' else ''must be closed''))) \<and>
   (requestTallyReveal fhe sender eid v = Inr v1 \<longrightarrow>
      requestTallyReveal fhe' sender' eid v1 =
        Inl (Require (if sender' = vv_owner v1 then ''reveal already requested''
                      else ''only owner'')) \<and>
      vv_expectedTallyHandle
        (vv_elections (vv_commit (requestTallyReveal fhe' sender' eid v1) v1) eid)
        = vv_expectedTallyHandle (vv_elections v1 eid))"
proof (intro conjI impI)
  assume r: "requestChoiceReveal fhe sender eid ch c = Inr c1"
  have a: "sender = owner c1" "state (elections c1 eid) = Closed"
    "ch < choiceCount (elections c1 eid)" "\<not> choiceRevealed (elections c1 eid) ch"
    using r by (auto simp: requestChoiceReveal_def Let_def split: if_splits option.splits)
  show "requestChoiceReveal fhe' sender eid ch c1 =
        (case FHE_makePubliclyDecryptable fhe' (encryptedVotesPerChoice (elections c1 eid) ch) of
           None \<Rightarrow> Inl FHE_revert
         | Some h \<Rightarrow>
             Inr (c1\<lparr>elections := (elections c1)(eid :=
                    (elections c1 eid)
                      \<lparr>encryptedVotesPerChoice :=
                         (encryptedVotesPerChoice (elections c1 eid))(ch := h),
                       expectedHandles :=
                         (expectedHandles (elections c1 eid))(ch := FHE_toBytes32 fhe' h)\<rparr>)\<rparr>))"
    using a by (simp add: requestChoiceReveal_def Let_def)
next
  assume r: "resolveChoiceCallback fhe eid ch ct pf cr = Inr c2"
  have inv: "resolved_inv eid ch (run txs c2)"
    using r resolve_establishes run_resolved_inv by blast
  then show "requestChoiceReveal fhe' sender' eid ch (run txs c2) =
        Inl (Require (if sender' \<noteq> owner (run txs c2) then ''only owner''
                      else if state (elections (run txs c2) eid) = Closed
                           then ''already revealed'' else ''must be closed''))"
    by (auto simp: requestChoiceReveal_def resolved_inv_def Let_def)
next
  assume r: "requestTallyReveal fhe sender eid v = Inr v1"
  show b: "requestTallyReveal fhe' sender' eid v1 =
        Inl (Require (if sender' = vv_owner v1 then ''reveal already requested''
                      else ''only owner''))"
    using r by (auto simp: requestTallyReveal_def Let_def split: if_splits option.splits)
  show "vv_expectedTallyHandle
        (vv_elections (vv_commit (requestTallyReveal fhe' sender' eid v1) v1) eid)
        = vv_expectedTallyHandle (vv_elections v1 eid)"
    by (simp add: b vv_commit_def)
qed

theorem second_reveal_request_witness:
  "requestChoiceReveal fhe_accepting admin 0 0 scenario_closed = Inr scenario_requested \<and>
   (\<exists>c2. requestChoiceReveal fhe_accepting admin 0 0 scenario_requested = Inr c2) \<and>
   resolveChoiceCallback fhe_accepting 0 0 cleartext_one [] scenario_requested
     = Inr scenario_first_resolved \<and>
   requestChoiceReveal fhe_accepting admin 0 0 scenario_first_resolved
     = Inl (Require ''already revealed'') \<and>
   requestChoiceReveal fhe_accepting admin 0 0 (run txs_reveal_second scenario_first_resolved)
     = Inl (Require ''must be closed'') \<and>
   requestChoiceReveal fhe_accepting voterA 0 0 scenario_first_resolved
     = Inl (Require ''only owner'') \<and>
   requestTallyReveal fhe_accepting admin 0 vv_closed = Inr vv_requested \<and>
   requestTallyReveal fhe_accepting admin 0 vv_requested
     = Inl (Require ''reveal already requested'')"
proof -
  have h1: "requestChoiceReveal fhe_accepting admin 0 0 scenario_closed = Inr scenario_requested"
    by (simp add: eval_defs scenario_requested_def scenario_closed_def txs_setup_def
        txs_voting_def voterA_def voterB_def fhe_accepting_def admin_def)
  have h2: "requestTallyReveal fhe_accepting admin 0 vv_closed = Inr vv_requested"
    by (simp add: vv_requested_def vv_closed_def requestTallyReveal_def vv_commit_def
        fhe_accepting_def admin_def)
  have h3: "resolveChoiceCallback fhe_accepting 0 0 cleartext_one [] scenario_requested
              = Inr scenario_first_resolved"
    by (simp add: eval_defs scenario_first_resolved_def cleartext_one_def scenario_requested_def
        txs_setup_def txs_voting_def voterA_def voterB_def fhe_accepting_def admin_def)
  have o: "admin = vv_owner vv_requested"
    by (simp add: vv_requested_def vv_closed_def requestTallyReveal_def vv_commit_def
        fhe_accepting_def admin_def)
  have s: "owner scenario_first_resolved = admin"
    "voterA \<noteq> admin"
    "state (elections scenario_first_resolved 0) = Closed"
    "owner (run txs_reveal_second scenario_first_resolved) = admin"
    "state (elections (run txs_reveal_second scenario_first_resolved) 0) = Revealed"
    by (simp_all add: eval_defs scenario_first_resolved_def cleartext_one_def
        scenario_requested_def txs_reveal_second_def txs_setup_def txs_voting_def voterA_def
        voterB_def fhe_accepting_def admin_def)
  have m: "FHE_makePubliclyDecryptable fhe_accepting h = Some h" for h
    by (simp add: fhe_accepting_def)
  note t = second_reveal_request[where fhe = fhe_accepting and fhe' = fhe_accepting and eid = 0
      and ch = 0 and ct = cleartext_one and pf = "[]" and v = vv_closed and ?v1.0 = vv_requested
      and sender = admin and c = scenario_closed and ?c1.0 = scenario_requested
      and cr = scenario_requested and ?c2.0 = scenario_first_resolved]
  show ?thesis
    using h1 h2 h3 o s
      t[where sender' = admin and txs = "[]"]
      t[where sender' = admin and txs = txs_reveal_second]
      t[where sender' = voterA and txs = "[]"]
    by (simp add: m)
qed

text \<open>
  The claim as stated fails: the reveal of choice 0 has been requested (its expected
  handle is stored, the choice is not revealed), and a second request succeeds; under a
  library that keeps the handle when it publishes, it returns the same state.
\<close>

theorem second_requestChoiceReveal_succeeds:
  "state (elections scenario_requested 0) = Closed \<and>
   expectedHandles (elections scenario_requested 0) 0 = 1 \<and>
   choiceRevealed (elections scenario_requested 0) 0 = False \<and>
   requestChoiceReveal fhe_accepting admin 0 0 scenario_requested = Inr scenario_requested"
  by (simp add: eval_defs scenario_requested_def txs_setup_def
      txs_voting_def voterA_def voterB_def fhe_accepting_def admin_def)

text \<open>
  C3, as amended. In the single-tally \<^verbatim>\<open>VaultVote\<close>, \<^verbatim>\<open>resolveTallyCallback\<close> on an existing
  election whose reveal has not been requested reverts with \<^verbatim>\<open>reveal not requested\<close> and
  leaves the state unchanged. \<^verbatim>\<open>resolveChoiceCallback\<close> of \<^verbatim>\<open>VaultVoteEnhanced\<close> has no such
  check and never reverts with that message: on an existing closed election and a valid
  choice that is not revealed, requested or not, it reverts exactly when the FHE library
  rejects the proof for the stored expected handle (zero when nothing was requested),
  the cleartext does not decode, or the counter would overflow. Every call that reverts
  leaves the state unchanged.
\<close>

theorem resolve_without_request:
  "(eid' < vv_electionCount v \<and> \<not> vv_revealRequested (vv_elections v eid') \<longrightarrow>
      resolveTallyCallback fhe eid' ct pf v = Inl (Require ''reveal not requested'') \<and>
      vv_commit (resolveTallyCallback fhe eid' ct pf v) v = v) \<and>
   resolveChoiceCallback fhe eid ch ct pf c \<noteq> Inl (Require ''reveal not requested'') \<and>
   (eid < electionCount c \<and> state (elections c eid) = Closed \<and>
    ch < choiceCount (elections c eid) \<and> \<not> choiceRevealed (elections c eid) ch \<longrightarrow>
      ((\<exists>err. resolveChoiceCallback fhe eid ch ct pf c = Inl err) \<longleftrightarrow>
         (\<not> FHE_checkSignatures fhe [expectedHandles (elections c eid) ch] ct pf \<or>
          abi_decode_uint32 ct = None \<or>
          revealedChoiceCount (elections c eid) = uint256_max))) \<and>
   (\<forall>err. resolveChoiceCallback fhe eid ch ct pf c = Inl err \<longrightarrow>
      commit (resolveChoiceCallback fhe eid ch ct pf c) c = c)"
  by (auto simp: resolveTallyCallback_def resolveChoiceCallback_def vv_commit_def commit_def Let_def
      split: option.splits)

theorem resolve_without_request_witness:
  "0 < vv_electionCount vv_closed \<and> vv_revealRequested (vv_elections vv_closed 0) = False \<and>
   resolveTallyCallback fhe_accepting 0 cleartext_one [] vv_closed
     = Inl (Require ''reveal not requested'') \<and>
   0 < electionCount scenario_closed \<and> state (elections scenario_closed 0) = Closed \<and>
   0 < choiceCount (elections scenario_closed 0) \<and>
   choiceRevealed (elections scenario_closed 0) 0 = False \<and>
   (\<exists>err. resolveChoiceCallback fhe_rejecting 0 0 cleartext_one [] scenario_closed = Inl err) \<and>
   commit (resolveChoiceCallback fhe_rejecting 0 0 cleartext_one [] scenario_closed) scenario_closed
     = scenario_closed"
proof -
  have v: "0 < vv_electionCount vv_closed" "vv_revealRequested (vv_elections vv_closed 0) = False"
    by (simp_all add: vv_closed_def)
  have p: "0 < electionCount scenario_closed" "state (elections scenario_closed 0) = Closed"
    "0 < choiceCount (elections scenario_closed 0)"
    "choiceRevealed (elections scenario_closed 0) 0 = False"
    by (simp_all add: eval_defs scenario_closed_def txs_setup_def
        txs_voting_def voterA_def voterB_def fhe_accepting_def admin_def)
  have r: "\<not> FHE_checkSignatures fhe_rejecting hs cleartext_one []" for hs
    by (simp add: fhe_rejecting_def)
  show ?thesis
    using v p r
      resolve_without_request[of 0 vv_closed fhe_accepting cleartext_one "[]"]
      resolve_without_request[of _ _ fhe_rejecting cleartext_one "[]" 0 0 scenario_closed]
    by blast
qed

text \<open>
  The claim as stated fails on \<^verbatim>\<open>VaultVoteEnhanced\<close>: no reveal has been requested for
  choice 0 (its expected handle is zero). Under a library that rejects the proof the
  call reverts inside the library, not with \<^verbatim>\<open>reveal not requested\<close>; under a library
  that accepts it the call succeeds and marks the choice revealed.
\<close>

theorem resolveChoiceCallback_without_request:
  "expectedHandles (elections scenario_closed 0) 0 = 0 \<and>
   resolveChoiceCallback fhe_rejecting 0 0 cleartext_one [] scenario_closed = Inl FHE_revert \<and>
   choiceRevealed (elections scenario_closed 0) 0 = False \<and>
   choiceRevealed
     (elections (commit (resolveChoiceCallback fhe_accepting 0 0 cleartext_one [] scenario_closed)
        scenario_closed) 0) 0 = True"
  by (simp add: eval_defs fhe_rejecting_def cleartext_one_def
      scenario_closed_def txs_setup_def txs_voting_def voterA_def voterB_def fhe_accepting_def admin_def)

section \<open>The winner\<close>

lemma getWinner_loop_spec:
  "getWinner_loop e i (wi, wv) = (ri, rv) \<Longrightarrow> wi < i \<Longrightarrow> i \<le> choiceCount e \<Longrightarrow>
   wv = revealedVotesPerChoice e wi \<Longrightarrow>
   (\<forall>j<i. revealedVotesPerChoice e j \<le> wv) \<Longrightarrow>
   (\<forall>j<wi. revealedVotesPerChoice e j < wv) \<Longrightarrow>
   ri < choiceCount e \<and> rv = revealedVotesPerChoice e ri \<and>
   (\<forall>j<choiceCount e. revealedVotesPerChoice e j \<le> rv) \<and>
   (\<forall>j<ri. revealedVotesPerChoice e j < rv)"
proof (induction e i "(wi, wv)" arbitrary: wi wv rule: getWinner_loop.induct)
  case (1 e i wi wv)
  show ?case
  proof (cases "i < choiceCount e")
    case False
    with "1.prems" show ?thesis
      by (subst (asm) getWinner_loop.simps) auto
  next
    case True
    show ?thesis
    proof (cases "revealedVotesPerChoice e i > wv")
      case gt: True
      have step: "getWinner_loop e (Suc i) (i, revealedVotesPerChoice e i) = (ri, rv)"
        using "1.prems"(1) True gt by (subst (asm) getWinner_loop.simps) simp
      have a: "\<forall>j<Suc i. revealedVotesPerChoice e j \<le> revealedVotesPerChoice e i"
        using "1.prems"(5) gt by (auto simp: less_Suc_eq intro: order.trans less_imp_le)
      have b: "\<forall>j<i. revealedVotesPerChoice e j < revealedVotesPerChoice e i"
        using "1.prems"(5) gt by (auto intro: order.strict_trans1)
      show ?thesis
        using "1.hyps"(1)[OF True gt step _ _ refl a b] True by auto
    next
      case le: False
      have step: "getWinner_loop e (Suc i) (wi, wv) = (ri, rv)"
        using "1.prems"(1) True le by (subst (asm) getWinner_loop.simps) simp
      have a: "\<forall>j<Suc i. revealedVotesPerChoice e j \<le> wv"
        using "1.prems"(5) le by (auto simp: less_Suc_eq)
      show ?thesis
        using "1.hyps"(2)[OF True le step _ _ "1.prems"(4) a "1.prems"(6)] True "1.prems"(2)
        by auto
    qed
  qed
qed

lemma getWinner_spec:
  assumes "fullyRevealed (elections c eid)" "0 < choiceCount (elections c eid)"
  shows "\<exists>i v. getWinner eid c = Inr (i, v) \<and> i < choiceCount (elections c eid) \<and>
           v = revealedVotesPerChoice (elections c eid) i \<and>
           (\<forall>j<choiceCount (elections c eid). revealedVotesPerChoice (elections c eid) j \<le> v) \<and>
           (\<forall>j<i. revealedVotesPerChoice (elections c eid) j < v)"
proof -
  let ?e = "elections c eid"
  obtain ri rv where r: "getWinner_loop ?e 1 (0, revealedVotesPerChoice ?e 0) = (ri, rv)"
    by (cases "getWinner_loop ?e 1 (0, revealedVotesPerChoice ?e 0)")
  have "ri < choiceCount ?e \<and> rv = revealedVotesPerChoice ?e ri \<and>
   (\<forall>j<choiceCount ?e. revealedVotesPerChoice ?e j \<le> rv) \<and>
   (\<forall>j<ri. revealedVotesPerChoice ?e j < rv)"
    using assms(2) by (intro getWinner_loop_spec[OF r]) auto
  then show ?thesis using assms(1) r by (auto simp: getWinner_def)
qed

lemma createElection_revealed_inv:
  assumes "createElection fhe sender t ls zi zp c = Inr (i, c')" "revealed_inv c"
  shows "revealed_inv c'"
  unfolding revealed_inv_def
proof (intro allI impI)
  fix eid assume f: "fullyRevealed (elections c' eid)"
  show "0 < choiceCount (elections c' eid)"
    using createElection_Inr[OF assms(1)] assms(2) f
    by (cases "eid = i") (auto simp: revealed_inv_def)
qed

lemma call_revealed_inv:
  "call fhe sender x c = Inr c' \<Longrightarrow> revealed_inv c \<Longrightarrow> revealed_inv c'"
proof (cases x)
  case (CreateElection t ls zi zp)
  assume "call fhe sender x c = Inr c'" "revealed_inv c"
  then show ?thesis
    using CreateElection createElection_revealed_inv
    by (auto split: sum.splits)
qed (auto simp: call_defs revealed_inv_def split: if_splits option.splits)

lemma run_revealed_inv: "revealed_inv c \<Longrightarrow> revealed_inv (run txs c)"
proof (induction txs arbitrary: c)
  case Nil
  then show ?case by simp
next
  case (Cons tx txs)
  obtain fhe sender x where tx: "tx = (fhe, sender, x)" by (cases tx)
  have "revealed_inv (commit (call fhe sender x c) c)"
    using commit_cases[of fhe sender x c] call_revealed_inv Cons.prems by fastforce
  then show ?case using Cons.IH by (simp add: tx)
qed

lemma constructor_revealed_inv: "revealed_inv (constructor deployer)"
  by (simp add: revealed_inv_def constructor_def zero_Election_def)

text \<open>
  C7. In every state that the contract reaches from its deployment, for every fully
  revealed election \<^verbatim>\<open>getWinner\<close> returns a pair \<open>(i, v)\<close> where \<open>i\<close> is a choice of
  the election, \<open>v\<close> is the revealed count of \<open>i\<close>, no choice has a larger revealed
  count, and every choice before \<open>i\<close> has a strictly smaller one: \<open>v\<close> is the maximum
  and \<open>i\<close> the lowest index that attains it.
\<close>

theorem getWinner_lowest_maximum:
  assumes "c = run txs (constructor deployer)" "fullyRevealed (elections c eid)"
  shows "\<exists>i v. getWinner eid c = Inr (i, v) \<and> i < choiceCount (elections c eid) \<and>
           v = revealedVotesPerChoice (elections c eid) i \<and>
           (\<forall>j<choiceCount (elections c eid). revealedVotesPerChoice (elections c eid) j \<le> v) \<and>
           (\<forall>j<i. revealedVotesPerChoice (elections c eid) j < v)"
proof -
  have "revealed_inv c"
    unfolding assms(1) by (rule run_revealed_inv[OF constructor_revealed_inv])
  then have "0 < choiceCount (elections c eid)"
    using assms(2) by (simp add: revealed_inv_def)
  then show ?thesis by (rule getWinner_spec[OF assms(2)])
qed

theorem getWinner_lowest_maximum_witness:
  "fullyRevealed (elections scenario_revealed 0) \<and>
   revealedVotesPerChoice (elections scenario_revealed 0) 0 = 1 \<and>
   revealedVotesPerChoice (elections scenario_revealed 0) 1 = 1 \<and>
   getWinner 0 scenario_revealed = Inr (0, 1) \<and>
   (\<exists>i v. getWinner 0 scenario_revealed = Inr (i, v) \<and>
      (\<forall>j<i. revealedVotesPerChoice (elections scenario_revealed 0) j < v))"
proof -
  have h: "fullyRevealed (elections scenario_revealed 0)"
    by (simp add: eval_defs scenario_revealed_def txs_setup_def txs_voting_def voterA_def voterB_def
        txs_reveal_def cleartext_one_def fhe_accepting_def admin_def)
  have v: "revealedVotesPerChoice (elections scenario_revealed 0) 0 = 1"
    "revealedVotesPerChoice (elections scenario_revealed 0) 1 = 1"
    "getWinner 0 scenario_revealed = Inr (0, 1)"
    by (simp_all add: eval_defs getWinner_def getWinner_loop.simps
        scenario_revealed_def txs_setup_def txs_voting_def voterA_def voterB_def
        txs_reveal_def cleartext_one_def fhe_accepting_def admin_def)
  show ?thesis
    using h v getWinner_lowest_maximum[OF scenario_revealed_def h] by blast
qed

section \<open>Creating an election\<close>

lemma createElection_loop_Some_iff:
  "(\<exists>e'. createElection_loop fhe zi zp n i e = Some e') \<longleftrightarrow>
     (\<forall>j. i \<le> j \<and> j < n \<longrightarrow>
        (case FHE_fromExternal fhe (zi ! j) (zp ! j) of
           None \<Rightarrow> False
         | Some h \<Rightarrow> FHE_allowThis fhe h))"
proof (induction fhe zi zp n i e rule: createElection_loop.induct)
  case (1 fhe zi zp n i e)
  note unfold = createElection_loop.simps[of fhe zi zp n i e]
  show ?case
  proof (cases "i < n")
    case False
    then show ?thesis by (auto simp: unfold)
  next
    case True
    show ?thesis
    proof (cases "FHE_fromExternal fhe (zi ! i) (zp ! i)")
      case None
      have "\<not> (\<exists>e'. createElection_loop fhe zi zp n i e = Some e')"
        using True None by (simp add: unfold)
      moreover have "\<not> (\<forall>j. i \<le> j \<and> j < n \<longrightarrow>
        (case FHE_fromExternal fhe (zi ! j) (zp ! j) of
           None \<Rightarrow> False
         | Some h \<Rightarrow> FHE_allowThis fhe h))"
        using True None by (auto intro!: exI[of _ i])
      ultimately show ?thesis by blast
    next
      case (Some h)
      show ?thesis
      proof (cases "FHE_allowThis fhe h")
        case False
        have "\<not> (\<exists>e'. createElection_loop fhe zi zp n i e = Some e')"
          using True Some False by (simp add: unfold)
        moreover have "\<not> (\<forall>j. i \<le> j \<and> j < n \<longrightarrow>
          (case FHE_fromExternal fhe (zi ! j) (zp ! j) of
             None \<Rightarrow> False
           | Some h \<Rightarrow> FHE_allowThis fhe h))"
          using True Some False by (auto intro!: exI[of _ i])
        ultimately show ?thesis by blast
      next
        case ok: True
        have step: "createElection_loop fhe zi zp n i e =
          createElection_loop fhe zi zp n (Suc i)
            (e\<lparr>encryptedVotesPerChoice := (encryptedVotesPerChoice e)(i := h),
               choiceRevealed := (choiceRevealed e)(i := False)\<rparr>)"
          using True Some ok by (simp add: unfold)
        have split: "(\<forall>j. i \<le> j \<and> j < n \<longrightarrow>
            (case FHE_fromExternal fhe (zi ! j) (zp ! j) of
               None \<Rightarrow> False
             | Some h \<Rightarrow> FHE_allowThis fhe h)) \<longleftrightarrow>
          (\<forall>j. Suc i \<le> j \<and> j < n \<longrightarrow>
            (case FHE_fromExternal fhe (zi ! j) (zp ! j) of
               None \<Rightarrow> False
             | Some h \<Rightarrow> FHE_allowThis fhe h))"
        proof
          assume a: "\<forall>j. i \<le> j \<and> j < n \<longrightarrow>
            (case FHE_fromExternal fhe (zi ! j) (zp ! j) of
               None \<Rightarrow> False
             | Some h \<Rightarrow> FHE_allowThis fhe h)"
          show "\<forall>j. Suc i \<le> j \<and> j < n \<longrightarrow>
            (case FHE_fromExternal fhe (zi ! j) (zp ! j) of
               None \<Rightarrow> False
             | Some h \<Rightarrow> FHE_allowThis fhe h)"
            using a by auto
        next
          assume a: "\<forall>j. Suc i \<le> j \<and> j < n \<longrightarrow>
            (case FHE_fromExternal fhe (zi ! j) (zp ! j) of
               None \<Rightarrow> False
             | Some h \<Rightarrow> FHE_allowThis fhe h)"
          show "\<forall>j. i \<le> j \<and> j < n \<longrightarrow>
            (case FHE_fromExternal fhe (zi ! j) (zp ! j) of
               None \<Rightarrow> False
             | Some h \<Rightarrow> FHE_allowThis fhe h)"
          proof (intro allI impI)
            fix j assume j: "i \<le> j \<and> j < n"
            show "case FHE_fromExternal fhe (zi ! j) (zp ! j) of
               None \<Rightarrow> False
             | Some h \<Rightarrow> FHE_allowThis fhe h"
            proof (cases "j = i")
              case True
              then show ?thesis using Some ok by simp
            next
              case False
              then have "Suc i \<le> j \<and> j < n" using j by simp
              then show ?thesis using a by blast
            qed
          qed
        qed
        show ?thesis
          unfolding step split by (rule "1.IH"[OF True Some ok])
      qed
    qed
  qed
qed

lemma createElection_FHE_ok_iff:
  "createElection_FHE_ok fhe zi zp n \<longleftrightarrow>
     (\<exists>e'. createElection_loop fhe zi zp n 0 e = Some e')"
  by (auto simp: createElection_loop_Some_iff createElection_FHE_ok_def list_all_iff)

lemma createElection_Inr_iff:
  "(\<exists>c'. createElection fhe sender t ls zi zp c = Inr (eid, c')) \<longleftrightarrow>
     (sender = owner c \<and> 2 \<le> length ls \<and> length zi = length ls \<and> length zp = length ls \<and>
      electionCount c \<noteq> uint256_max \<and> createElection_FHE_ok fhe zi zp (length ls) \<and>
      eid = electionCount c)"
proof -
  let ?e = "(elections c (electionCount c))
              \<lparr>title := t, choiceLabels := ls, choiceCount := length ls, state := Created,
               fullyRevealed := False, revealedChoiceCount := 0\<rparr>"
  have ok: "createElection_FHE_ok fhe zi zp (length ls) \<longleftrightarrow>
              (\<exists>e'. createElection_loop fhe zi zp (length ls) 0 ?e = Some e')"
    by (rule createElection_FHE_ok_iff)
  show ?thesis
    unfolding ok
    by (auto simp: createElection_def Let_def split: option.splits)
qed

lemma createElection_stores:
  "createElection fhe sender t ls zi zp c = Inr (eid, c') \<Longrightarrow>
     title (elections c' eid) = t \<and> choiceLabels (elections c' eid) = ls \<and>
     choiceCount (elections c' eid) = length ls \<and>
     electionCount c' = Suc (electionCount c)"
  by (auto simp: createElection_def Let_def split: if_splits option.splits
      dest!: createElection_loop_frame)

text \<open>
  C8, as amended. The contract's \<^verbatim>\<open>createElection\<close> succeeds if and only if the caller is
  the owner, there are at least 2 choice labels, the numbers of zero inputs and of zero
  proofs both equal the number of labels, the election counter is not at its maximum and
  the FHE library accepts every zero input (\<open>createElection_FHE_ok\<close>); a call that
  violates one of the first four conditions reverts and creates no election. The
  conditions put no upper bound on the number of labels and do not mention their
  contents: every list of 2 or more labels, empty labels included, is accepted and
  stored as it is. The bound of 10 labels and the non-empty labels are checks of the
  client's form schema \<^verbatim>\<open>createElectionSchema\<close>, which accepts a form only when it has
  between 2 and 10 labels, each of at least one character as entered.
\<close>

theorem createElection_checks:
  "((\<exists>c'. createElection fhe sender t ls zi zp c = Inr (eid, c')) \<longleftrightarrow>
      (sender = owner c \<and> 2 \<le> length ls \<and> length zi = length ls \<and> length zp = length ls \<and>
       electionCount c \<noteq> uint256_max \<and> createElection_FHE_ok fhe zi zp (length ls) \<and>
       eid = electionCount c)) \<and>
   (createElection fhe sender t ls zi zp c = Inr (eid, c') \<longrightarrow>
      sender = owner c \<and> 2 \<le> length ls \<and> length zi = length ls \<and> length zp = length ls \<and>
      title (elections c' eid) = t \<and> choiceLabels (elections c' eid) = ls \<and>
      choiceCount (elections c' eid) = length ls \<and>
      electionCount c' = Suc (electionCount c)) \<and>
   (\<not> (sender = owner c \<and> 2 \<le> length ls \<and> length zi = length ls \<and> length zp = length ls)
      \<longrightarrow> commit (call fhe sender (CreateElection t ls zi zp) c) c = c) \<and>
   (createElectionSchema t ls = Some out \<longrightarrow>
      2 \<le> length ls \<and> length ls \<le> 10 \<and> (\<forall>l\<in>set ls. l \<noteq> []))"
proof (intro conjI impI)
  show "(\<exists>c'. createElection fhe sender t ls zi zp c = Inr (eid, c')) \<longleftrightarrow>
      (sender = owner c \<and> 2 \<le> length ls \<and> length zi = length ls \<and> length zp = length ls \<and>
       electionCount c \<noteq> uint256_max \<and> createElection_FHE_ok fhe zi zp (length ls) \<and>
       eid = electionCount c)"
    by (rule createElection_Inr_iff)
next
  assume r: "createElection fhe sender t ls zi zp c = Inr (eid, c')"
  from createElection_Inr[OF r]
  show "sender = owner c" "2 \<le> length ls" "length zi = length ls" "length zp = length ls"
    by auto
  from createElection_stores[OF r]
  show "title (elections c' eid) = t" "choiceLabels (elections c' eid) = ls"
    "choiceCount (elections c' eid) = length ls" "electionCount c' = Suc (electionCount c)"
    by auto
next
  assume "\<not> (sender = owner c \<and> 2 \<le> length ls \<and> length zi = length ls \<and> length zp = length ls)"
  then show "commit (call fhe sender (CreateElection t ls zi zp) c) c = c"
    by (auto simp: createElection_def commit_def)
next
  assume "createElectionSchema t ls = Some out"
  then show "2 \<le> length ls" "length ls \<le> 10" "\<forall>l\<in>set ls. l \<noteq> []"
    by (auto simp: createElectionSchema_def list_all_iff split: if_splits)
qed

theorem createElection_checks_witness:
  "(\<exists>c'. createElection fhe_accepting admin ''Poll'' [''Yes'', ''No''] [0, 0] [[], []]
            (constructor admin) = Inr (0, c')) \<and>
   (\<exists>c'. createElection fhe_accepting admin ''Poll'' eleven_labels eleven_inputs eleven_proofs
            (constructor admin) = Inr (0, c') \<and>
          choiceLabels (elections c' 0) = eleven_labels) \<and>
   admin = owner (constructor admin) \<and>
   voterA \<noteq> owner (constructor admin) \<and>
   commit (call fhe_accepting voterA (CreateElection ''Poll'' [''Yes'', ''No''] [0, 0] [[], []])
             (constructor admin)) (constructor admin) = constructor admin \<and>
   createElectionSchema ''Poll'' [''Yes'', ''No''] = Some (''Poll'', [''Yes'', ''No'']) \<and>
   length [''Yes'', ''No''] \<le> 10"
proof -
  have o: "admin = owner (constructor admin)" "electionCount (constructor admin) = 0"
    "electionCount (constructor admin) \<noteq> uint256_max"
    by (simp_all add: constructor_def uint256_max_def)
  have f: "createElection_FHE_ok fhe_accepting zi zp n" for zi zp n
    by (simp add: createElection_FHE_ok_def fhe_accepting_def list_all_iff)
  have l: "length eleven_labels = 11" "length eleven_inputs = 11" "length eleven_proofs = 11"
    by (simp_all add: eleven_labels_def eleven_inputs_def eleven_proofs_def)
  have b: "voterA \<noteq> owner (constructor admin)"
    by (simp add: constructor_def voterA_def admin_def)
  have s: "createElectionSchema ''Poll'' [''Yes'', ''No''] = Some (''Poll'', [''Yes'', ''No''])"
    by (simp add: createElectionSchema_def js_trim_def is_space_def)
  note t = createElection_checks[where fhe = fhe_accepting and t = "''Poll''"
      and c = "constructor admin"]
  have two: "\<exists>c'. createElection fhe_accepting admin ''Poll'' [''Yes'', ''No''] [0, 0] [[], []]
            (constructor admin) = Inr (0, c')"
    using o f
      t[where sender = admin and ls = "[''Yes'', ''No'']" and zi = "[0, 0]" and zp = "[[], []]"
          and eid = 0]
    by simp
  have l2: "2 \<le> length eleven_labels" "length eleven_inputs = length eleven_labels"
    "length eleven_proofs = length eleven_labels"
    by (simp_all add: l)
  have "\<exists>c'. createElection fhe_accepting admin ''Poll'' eleven_labels eleven_inputs
            eleven_proofs (constructor admin) = Inr (0, c')"
    using o f l2
      t[where sender = admin and ls = eleven_labels and zi = eleven_inputs
          and zp = eleven_proofs and eid = 0, THEN conjunct1]
    by simp
  then obtain c11 where c11: "createElection fhe_accepting admin ''Poll'' eleven_labels
            eleven_inputs eleven_proofs (constructor admin) = Inr (0, c11)"
    by blast
  have "choiceLabels (elections c11 0) = eleven_labels"
    using c11
      t[where sender = admin and ls = eleven_labels and zi = eleven_inputs
          and zp = eleven_proofs and eid = 0 and c' = c11]
    by blast
  with c11 have eleven: "\<exists>c'. createElection fhe_accepting admin ''Poll'' eleven_labels
            eleven_inputs eleven_proofs (constructor admin) = Inr (0, c') \<and>
          choiceLabels (elections c' 0) = eleven_labels"
    by blast
  have rejected: "commit (call fhe_accepting voterA
             (CreateElection ''Poll'' [''Yes'', ''No''] [0, 0] [[], []])
             (constructor admin)) (constructor admin) = constructor admin"
    using b t[where sender = voterA and ls = "[''Yes'', ''No'']" and zi = "[0, 0]"
          and zp = "[[], []]"]
    by blast
  show ?thesis
    using two eleven o(1) b rejected s by simp
qed

text \<open>
  The claim as stated fails on the contract: eleven labels, one of them empty, are
  accepted and stored; the form schema rejects the same labels.
\<close>

theorem createElection_accepts_eleven_labels:
  "length eleven_labels = 11 \<and> eleven_labels ! 10 = [] \<and>
   electionCount
     (commit (call fhe_accepting admin
                (CreateElection ''Poll'' eleven_labels eleven_inputs eleven_proofs)
                (constructor admin)) (constructor admin)) = 1 \<and>
   choiceLabels
     (elections
        (commit (call fhe_accepting admin
                   (CreateElection ''Poll'' eleven_labels eleven_inputs eleven_proofs)
                   (constructor admin)) (constructor admin)) 0) = eleven_labels \<and>
   createElectionSchema ''Poll'' eleven_labels = None"
  by (simp add: eval_defs fhe_accepting_def admin_def eleven_labels_def eleven_inputs_def
      eleven_proofs_def createElectionSchema_def)

section \<open>The toggle-hidden route\<close>

lemma not_digit_space: "\<not> is_digit CHR '' ''"
  by (simp add: is_digit_def)

lemma match_messagePattern_template:
  assumes "digits \<noteq> []" "list_all is_digit digits" "nonce \<noteq> []" "list_all is_hex nonce"
  shows "match_messagePattern (''Toggle hidden for election '' @ digits @ '' with nonce '' @ nonce)
           = Some (digits, nonce)"
proof -
  have all: "\<forall>x\<in>set digits. is_digit x"
    using assms(2) by (simp add: list_all_iff)
  have tw: "takeWhile is_digit (digits @ CHR '' '' # rest) = digits" for rest
    using all by (simp add: not_digit_space)
  have dw: "dropWhile is_digit (digits @ CHR '' '' # rest) = CHR '' '' # rest" for rest
    using all by (simp add: not_digit_space)
  show ?thesis
    using assms(1,3,4) by (simp add: match_messagePattern_def tw dw Let_def)
qed

lemma toggle_hidden_absent_nonce:
  assumes "nonceStore srv nonce = None"
  shows "fst (fst (toggle_hidden verifyMessage now idParam message' signature' (Some nonce) srv)) \<noteq> 200
         \<and> snd (toggle_hidden verifyMessage now idParam message' signature' (Some nonce) srv) = srv"
  using assms by (auto simp: toggle_hidden_def falsy_def split: option.splits)

text \<open>
  C1, as amended. An attempt on the toggle-hidden route with a stored nonce, a valid
  election id and non-empty message and signature deletes the nonce whenever the
  election id of the request equals the one stored with the nonce, whatever the outcome
  of the rest of the verification (expiry, signature, message format, message data or
  success); every later attempt with that nonce then fails and changes nothing. An
  attempt whose election id differs from the stored one is answered with 400
  \<^verbatim>\<open>Nonce does not match election ID\<close> and leaves the whole server state, the nonce
  included, as it was.
\<close>

theorem nonce_consumed_unless_election_mismatch:
  assumes "nonceStore srv nonce = Some nonceData" "parseInt10 idParam = Some electionId"
    and "message \<noteq> []" "signature \<noteq> []" "nonce \<noteq> []"
    and "toggle_hidden verifyMessage now idParam (Some message) (Some signature) (Some nonce) srv
           = (r, srv')"
  shows "(nd_electionId nonceData \<noteq> electionId \<longrightarrow>
            r = (400, Error ''Nonce does not match election ID'') \<and> srv' = srv) \<and>
         (nd_electionId nonceData = electionId \<longrightarrow>
            nonceStore srv' nonce = None \<and>
            (\<forall>verifyMessage' now' idParam' message' signature'.
               fst (fst (toggle_hidden verifyMessage' now' idParam' message' signature' (Some nonce) srv'))
                 \<noteq> 200 \<and>
               snd (toggle_hidden verifyMessage' now' idParam' message' signature' (Some nonce) srv')
                 = srv'))"
proof (intro conjI impI)
  assume ne: "nd_electionId nonceData \<noteq> electionId"
  show "r = (400, Error ''Nonce does not match election ID'')" "srv' = srv"
    using assms ne by (auto simp: toggle_hidden_def falsy_def)
next
  assume eq: "nd_electionId nonceData = electionId"
  show gone: "nonceStore srv' nonce = None"
    using assms eq
    by (auto simp: toggle_hidden_def falsy_def Let_def saveElectionMetadata_def
        split: option.splits if_splits)
  show "\<forall>verifyMessage' now' idParam' message' signature'.
          fst (fst (toggle_hidden verifyMessage' now' idParam' message' signature' (Some nonce) srv'))
            \<noteq> 200 \<and>
          snd (toggle_hidden verifyMessage' now' idParam' message' signature' (Some nonce) srv')
            = srv'"
    using toggle_hidden_absent_nonce[OF gone] by blast
qed

theorem nonce_consumed_unless_election_mismatch_witness:
  "nonceStore srv_issued ''ab12''
     = Some \<lparr>nd_nonce = ''ab12'', nd_electionId = 5, nd_expiresAt = 301000\<rparr> \<and>
   parseInt10 ''5'' = Some 5 \<and>
   fst (toggle_hidden recover_throws 2000 ''5'' (Some message5) (Some ''alice'') (Some ''ab12'')
          srv_issued) = (401, Error ''Invalid signature'') \<and>
   nonceStore srv_consumed ''ab12'' = None \<and>
   fst (toggle_hidden recover_any 2000 ''5'' (Some message5) (Some ''alice'') (Some ''ab12'')
          srv_consumed) = (401, Error ''Invalid or expired nonce'')"
proof -
  have h1: "nonceStore srv_issued ''ab12''
     = Some \<lparr>nd_nonce = ''ab12'', nd_electionId = 5, nd_expiresAt = 301000\<rparr>"
    by (simp add: server_eval_defs srv_described_def srv_issued_def message5_def recover_any_def)
  have h2: "parseInt10 ''5'' = Some 5"
    by (simp add: server_eval_defs)
  have h3: "message5 \<noteq> []" "''alice'' \<noteq> []" "''ab12'' \<noteq> []"
    by (simp_all add: message5_def)
  have h4: "toggle_hidden recover_throws 2000 ''5'' (Some message5) (Some ''alice'') (Some ''ab12'')
          srv_issued = ((401, Error ''Invalid signature''), srv_consumed)"
    unfolding srv_consumed_def
    by (rule prod_eqI) (simp_all add: server_eval_defs recover_throws_def srv_described_def srv_issued_def message5_def recover_any_def)
  have gone: "nonceStore srv_consumed ''ab12'' = None"
    using nonce_consumed_unless_election_mismatch[OF h1 h2 h3 h4] by simp
  have "fst (toggle_hidden recover_any 2000 ''5'' (Some message5) (Some ''alice'') (Some ''ab12'')
          srv_consumed) = (401, Error ''Invalid or expired nonce'')"
    using gone by (simp add: toggle_hidden_def h2 falsy_def message5_def)
  then show ?thesis
    using h1 h2 h4 gone by simp
qed

text \<open>
  The claim as stated fails: the nonce was issued for election 5; the attempt for
  election 6 is answered with 400 and leaves the nonce in the store, and the next
  attempt, with the same nonce and election 5, succeeds.
\<close>

theorem nonce_survives_election_mismatch:
  "fst (toggle_hidden recover_any 2000 ''6'' (Some message5) (Some ''alice'') (Some ''ab12'')
          srv_issued) = (400, Error ''Nonce does not match election ID'') \<and>
   nonceStore srv_after_mismatch ''ab12''
     = Some \<lparr>nd_nonce = ''ab12'', nd_electionId = 5, nd_expiresAt = 301000\<rparr> \<and>
   fst (toggle_hidden recover_any 2000 ''5'' (Some message5) (Some ''alice'') (Some ''ab12'')
          srv_after_mismatch) = (200, Success True)"
  by (simp add: server_eval_defs srv_after_mismatch_def
      srv_described_def srv_issued_def message5_def recover_any_def)

text \<open>
  C9. The route applies no policy to the recovered signer. For every request that
  carries an unexpired nonce issued for the election of the request, a message of the
  exact form \<^verbatim>\<open>Toggle hidden for election {id} with nonce {nonce}\<close> for that election and
  nonce, and a signature from which \<^verbatim>\<open>verifyMessage\<close> recovers any address at all, the
  route answers 200, deletes the nonce and stores the toggled hidden flag: the new flag
  is false when the stored record of the election has the hidden flag true, and true when
  there is no record, the record has no hidden flag, or the flag is false. The answer
  and the new state do not depend on the address, so a second request that differs only
  in who signed has the same outcome.
\<close>

theorem toggle_hidden_any_signer:
  assumes "nonceStore srv nonce = Some nonceData" "nd_electionId nonceData = electionId"
    and "\<not> nd_expiresAt nonceData < now" "parseInt10 idParam = Some electionId"
    and "digits \<noteq> []" "list_all is_digit digits" "parseInt10 digits = Some electionId"
    and "nonce \<noteq> []" "list_all is_hex nonce"
    and "message = ''Toggle hidden for election '' @ digits @ '' with nonce '' @ nonce"
    and "signature \<noteq> []" "verifyMessage message signature = Some signerAddress"
    and "signature2 \<noteq> []" "verifyMessage message signature2 = Some signerAddress2"
    and "hiddenBefore =
           (case electionMetadata srv electionId of
              None \<Rightarrow> False
            | Some md \<Rightarrow> md_hidden md = Some True)"
  shows "toggle_hidden verifyMessage now idParam (Some message) (Some signature) (Some nonce) srv
           = ((200, Success (\<not> hiddenBefore)),
              srv\<lparr>nonceStore := (nonceStore srv)(nonce := None),
                  electionMetadata := (electionMetadata srv)(electionId \<mapsto>
                    \<lparr>md_electionId = electionId, md_description = None,
                     md_votingStartTime = None, md_votingEndTime = None,
                     md_resultRevealTime = None, md_imageUrl = None,
                     md_hidden = Some (\<not> hiddenBefore)\<rparr>)\<rparr>) \<and>
         toggle_hidden verifyMessage now idParam (Some message) (Some signature2) (Some nonce) srv
           = toggle_hidden verifyMessage now idParam (Some message) (Some signature) (Some nonce) srv"
proof -
  have m: "match_messagePattern message = Some (digits, nonce)"
    unfolding assms(10) by (rule match_messagePattern_template[OF assms(5,6,8,9)])
  have ne: "message \<noteq> []"
    unfolding assms(10) by simp
  have flag: "newHiddenState (electionMetadata srv electionId) = (\<not> hiddenBefore)"
    unfolding assms(15) by (auto simp: newHiddenState_def split: option.splits)
  have r: "toggle_hidden verifyMessage now idParam (Some message) (Some sg) (Some nonce) srv
           = ((200, Success (\<not> hiddenBefore)),
              srv\<lparr>nonceStore := (nonceStore srv)(nonce := None),
                  electionMetadata := (electionMetadata srv)(electionId \<mapsto>
                    \<lparr>md_electionId = electionId, md_description = None,
                     md_votingStartTime = None, md_votingEndTime = None,
                     md_resultRevealTime = None, md_imageUrl = None,
                     md_hidden = Some (\<not> hiddenBefore)\<rparr>)\<rparr>)"
    if "sg \<noteq> []" "verifyMessage message sg = Some a" for sg a
    using that assms(1-4,7,8) ne m
    by (simp add: toggle_hidden_def falsy_def Let_def saveElectionMetadata_def
        getElectionMetadata_def flag)
  show ?thesis
    using r[OF assms(11,12)] r[OF assms(13,14)] by simp
qed

theorem toggle_hidden_any_signer_witness:
  "recover_any message5 ''alice'' = Some ''alice'' \<and>
   recover_any message5 ''mallory'' = Some ''mallory'' \<and>
   fst (toggle_hidden recover_any 2000 ''5'' (Some message5) (Some ''alice'') (Some ''ab12'')
          srv_issued) = (200, Success True) \<and>
   toggle_hidden recover_any 2000 ''5'' (Some message5) (Some ''mallory'') (Some ''ab12'') srv_issued
     = toggle_hidden recover_any 2000 ''5'' (Some message5) (Some ''alice'') (Some ''ab12'')
         srv_issued \<and>
   fst (toggle_hidden recover_any 2000 ''5'' (Some message5_second) (Some ''mallory'')
          (Some ''cd34'') srv_hidden) = (200, Success False) \<and>
   electionMetadata
     (snd (toggle_hidden recover_any 2000 ''5'' (Some message5_second) (Some ''mallory'')
             (Some ''cd34'') srv_hidden)) 5
     = Some \<lparr>md_electionId = 5, md_description = None,
             md_votingStartTime = None, md_votingEndTime = None,
             md_resultRevealTime = None, md_imageUrl = None, md_hidden = Some False\<rparr>"
proof -
  have h1: "nonceStore srv_issued ''ab12''
     = Some \<lparr>nd_nonce = ''ab12'', nd_electionId = 5, nd_expiresAt = 301000\<rparr>"
    by (simp add: server_eval_defs srv_described_def srv_issued_def)
  have g1: "nonceStore srv_hidden ''cd34''
     = Some \<lparr>nd_nonce = ''cd34'', nd_electionId = 5, nd_expiresAt = 301000\<rparr>"
    by (simp add: srv_hidden_def)
  have h2: "nd_electionId \<lparr>nd_nonce = n, nd_electionId = 5, nd_expiresAt = 301000\<rparr> = 5"
    "\<not> nd_expiresAt \<lparr>nd_nonce = n, nd_electionId = 5, nd_expiresAt = 301000\<rparr> < 2000" for n
    by simp_all
  have h3: "parseInt10 ''5'' = Some 5"
    by (simp add: server_eval_defs)
  have h4: "''5'' \<noteq> []" "list_all is_digit ''5''" "''ab12'' \<noteq> []" "list_all is_hex ''ab12''"
    "''cd34'' \<noteq> []" "list_all is_hex ''cd34''"
    by (simp_all add: is_digit_def is_hex_def)
  have h5: "message5 = ''Toggle hidden for election '' @ ''5'' @ '' with nonce '' @ ''ab12''"
    "message5_second = ''Toggle hidden for election '' @ ''5'' @ '' with nonce '' @ ''cd34''"
    by (simp_all add: message5_def message5_second_def)
  have h6: "''alice'' \<noteq> []" "recover_any msg ''alice'' = Some ''alice''"
    "''mallory'' \<noteq> []" "recover_any msg ''mallory'' = Some ''mallory''" for msg
    by (simp_all add: recover_any_def)
  have b1: "False = (case electionMetadata srv_issued 5 of
              None \<Rightarrow> False
            | Some md \<Rightarrow> md_hidden md = Some True)"
    by (simp add: server_eval_defs srv_described_def srv_issued_def)
  have b2: "True = (case electionMetadata srv_hidden 5 of
              None \<Rightarrow> False
            | Some md \<Rightarrow> md_hidden md = Some True)"
    by (simp add: srv_hidden_def)
  show ?thesis
    using h6
      toggle_hidden_any_signer[where verifyMessage = recover_any,
        OF h1 h2 h3 h4(1,2) h3 h4(3,4) h5(1) h6 b1]
      toggle_hidden_any_signer[where verifyMessage = recover_any,
        OF g1 h2 h3 h4(1,2) h3 h4(5,6) h5(2) h6 b2]
    by simp
qed

text \<open>
  C10. A successful request on the toggle-hidden route replaces the stored metadata
  record of the election by the record that holds only the election id and the new
  hidden flag: \<^verbatim>\<open>saveElectionMetadata\<close> overwrites the map entry, so a description, the
  three times and an image URL stored before are gone from it.
\<close>

theorem toggle_hidden_overwrites_metadata:
  assumes "toggle_hidden verifyMessage now idParam message' signature' nonce' srv = ((200, b), srv')"
    and "parseInt10 idParam = Some electionId"
  shows "b = Success (newHiddenState (electionMetadata srv electionId)) \<and>
         electionMetadata srv' electionId =
           Some \<lparr>md_electionId = electionId, md_description = None,
                 md_votingStartTime = None, md_votingEndTime = None,
                 md_resultRevealTime = None, md_imageUrl = None,
                 md_hidden = Some (newHiddenState (electionMetadata srv electionId))\<rparr>"
  using assms
  by (auto simp: toggle_hidden_def falsy_def Let_def saveElectionMetadata_def
        getElectionMetadata_def split: option.splits if_splits)

theorem toggle_hidden_overwrites_metadata_witness:
  "electionMetadata srv_issued 5 =
     Some \<lparr>md_electionId = 5, md_description = Some ''Budget vote'',
           md_votingStartTime = None, md_votingEndTime = None, md_resultRevealTime = None,
           md_imageUrl = Some ''https://example.org/a.png'', md_hidden = None\<rparr> \<and>
   toggle_hidden recover_any 2000 ''5'' (Some message5) (Some ''alice'') (Some ''ab12'') srv_issued
     = ((200, Success True), srv_toggled) \<and>
   electionMetadata srv_toggled 5 =
     Some \<lparr>md_electionId = 5, md_description = None,
           md_votingStartTime = None, md_votingEndTime = None, md_resultRevealTime = None,
           md_imageUrl = None, md_hidden = Some True\<rparr>"
proof -
  have h0: "electionMetadata srv_issued 5 =
     Some \<lparr>md_electionId = 5, md_description = Some ''Budget vote'',
           md_votingStartTime = None, md_votingEndTime = None, md_resultRevealTime = None,
           md_imageUrl = Some ''https://example.org/a.png'', md_hidden = None\<rparr>"
    by (simp add: server_eval_defs srv_described_def srv_issued_def message5_def recover_any_def)
  have h1: "toggle_hidden recover_any 2000 ''5'' (Some message5) (Some ''alice'') (Some ''ab12'')
              srv_issued = ((200, Success True), srv_toggled)"
    unfolding srv_toggled_def
    by (rule prod_eqI) (simp_all add: server_eval_defs srv_described_def srv_issued_def message5_def recover_any_def)
  have h2: "parseInt10 ''5'' = Some 5"
    by (simp add: server_eval_defs)
  have n: "newHiddenState (electionMetadata srv_issued 5) = True"
    by (simp add: server_eval_defs srv_described_def srv_issued_def message5_def recover_any_def)
  show ?thesis
    using h0 h1 toggle_hidden_overwrites_metadata[OF h1 h2] by (simp add: n)
qed

end
